theory Spec2Isabelle
  imports
    Main
    "HOL-Library.AList"
    "HOL-Library.Char_ord"
    "HOL-Library.List_Lexorder"
    "HOL-Library.Product_Lexorder"
begin

section \<open>Data model (types.ts)\<close>

text \<open>
  The records follow \<^verbatim>\<open>types.ts\<close> field by field. An optional property is an
  \<open>option\<close>; \<open>None\<close> is JavaScript's \<^verbatim>\<open>undefined\<close>. A JavaScript number is a
  double. The number fields hold whole numbers and are \<open>int\<close>s here: the integers a double
  represents. The sum of two numbers is the exact sum rounded to the nearest double, ties
  to the even significand (\<open>jsAdd\<close> below), so \<^verbatim>\<open>retryCount += 1\<close> is exact from
  \<open>- (2 ^ 53)\<close> up to \<open>2 ^ 53 - 1\<close> and not beyond. The three counters of the daemon
  state are private to the daemon; they start at 0 and go up by one per bundle, so they
  stay in the exact range and are incremented with \<open>+\<close>.

  An \<open>ErrorBundle\<close> value is the object the daemon holds after \<^verbatim>\<open>JSON.parse\<close>. The
  cast \<^verbatim>\<open>as ErrorBundle\<close> checks nothing, so the two properties that
  \<^verbatim>\<open>readErrorBundle\<close> tests at run time, \<^verbatim>\<open>id\<close> and \<^verbatim>\<open>version\<close>, are optional
  here: a stored object may lack them. The field \<^verbatim>\<open>id\<close> is named \<open>bundleId\<close> and
  \<^verbatim>\<open>context\<close> is named \<open>bundleContext\<close>.
\<close>

datatype ErrorBundleSeverity = SeverityError | SeverityWarning | SeverityFatal

record ErrorBundleSource =
  skillName :: "string option"
  agentId :: "string option"
  sessionKey :: "string option"
  cronJobId :: "string option"
  channel :: "string option"

record ErrorBundleContext =
  command :: "string option"
  workspaceDir :: "string option"
  environment :: "(string \<times> string) list option"
  relatedFiles :: "string list option"
  skillContent :: "string option"

record ErrorBundleEntry =
  message :: string
  stack :: "string option"
  severity :: ErrorBundleSeverity
  code :: "string option"

record ErrorBundleResolution =
  resolved :: bool
  action :: string
  modifiedFiles :: "string list option"
  retryTriggered :: bool

record ErrorBundle =
  bundleId :: "string option"
  createdAt :: string
  version :: "int option"
  source :: ErrorBundleSource
  bundleContext :: ErrorBundleContext
  errors :: "ErrorBundleEntry list"
  retryCount :: int
  maxRetries :: int
  processed :: bool
  processedAt :: "string option"
  resolution :: "ErrorBundleResolution option"

text \<open>The three status strings \<^verbatim>\<open>"running"\<close>, \<^verbatim>\<open>"stopped"\<close> and \<^verbatim>\<open>"error"\<close>.\<close>

datatype ErrorFeedbackDaemonStatus = Running | Stopped | StatusError

record ErrorFeedbackDaemonState =
  status :: ErrorFeedbackDaemonStatus
  startedAt :: "string option"
  lastPollAt :: "string option"
  bundlesProcessed :: int
  bundlesResolved :: int
  bundlesFailed :: int
  pid :: "int option"

subsection \<open>Addition of JavaScript numbers\<close>

text \<open>
  A double has a significand of 53 bits. \<open>ulpExponent a\<close> is the number of low bits
  that the whole number \<open>a\<close> has beyond 53, so \<open>2 ^ ulpExponent a\<close> is the distance
  between neighbouring doubles at \<open>a\<close>. \<open>roundToDouble\<close> rounds a whole number to the
  nearest double; halfway between two doubles it takes the one with the even
  significand. Whole numbers of \<open>2 ^ 1024\<close> and more, which round to infinity, are not
  values of these fields.
\<close>

function ulpExponent :: "nat \<Rightarrow> nat" where
  "ulpExponent a = (if a < 2 ^ 53 then 0 else Suc (ulpExponent (a div 2)))"
  by pat_completeness auto
termination
  by (relation "measure id") auto

declare ulpExponent.simps [simp del]

definition roundToDouble :: "int \<Rightarrow> int" where
  "roundToDouble x =
     (let a = nat \<bar>x\<bar>;
          step = 2 ^ ulpExponent a;
          q = a div step;
          r = a mod step;
          m = (if 2 * r < step then q
               else if step < 2 * r then q + 1
               else if even q then q else q + 1)
      in sgn x * int (m * step))"

definition jsAdd :: "int \<Rightarrow> int \<Rightarrow> int" where
  "jsAdd a b = roundToDouble (a + b)"

section \<open>The environment: files, clock, processes\<close>

text \<open>
  A file is addressed by its directory and its entry name; \<^verbatim>\<open>path.join(dir, name)\<close>
  is the pair and \<^verbatim>\<open>path.basename\<close> its second component. Entry names are taken
  not to contain a path separator.

  The text of a JSON file is identified with the value \<^verbatim>\<open>JSON.parse\<close> returns for
  it, and \<^verbatim>\<open>JSON.stringify\<close> of an object with the file holding that object:
  \<open>NotJson\<close> is a text that \<^verbatim>\<open>JSON.parse\<close> rejects, \<open>JsonNull\<close> the text
  \<^verbatim>\<open>null\<close> (reading a property of the parsed value raises a TypeError), and
  \<open>Json x\<close> an object read through the fields of \<open>x\<close>.

  The file system is an association list from paths to contents. It is ideal: an
  operation fails only for a missing file (\<^verbatim>\<open>ENOENT\<close>); \<^verbatim>\<open>mkdir\<close> with
  \<^verbatim>\<open>recursive\<close> and \<^verbatim>\<open>writeFile\<close> always succeed. A failing operation returns
  \<open>None\<close>.
\<close>

type_synonym path = "string \<times> string"

datatype 'a json_text = NotJson string | JsonNull | Json 'a

type_synonym 'a filesystem = "(path \<times> 'a) list"

definition readFile :: "'a filesystem \<Rightarrow> path \<Rightarrow> 'a option" where
  "readFile fs p = map_of fs p"

definition writeFile :: "path \<Rightarrow> 'a \<Rightarrow> 'a filesystem \<Rightarrow> 'a filesystem" where
  "writeFile p c fs = AList.update p c fs"

definition unlink :: "path \<Rightarrow> 'a filesystem \<Rightarrow> 'a filesystem option" where
  "unlink p fs = (case map_of fs p of None \<Rightarrow> None | Some _ \<Rightarrow> Some (AList.delete p fs))"

definition rename :: "path \<Rightarrow> path \<Rightarrow> 'a filesystem \<Rightarrow> 'a filesystem option" where
  "rename src dst fs =
     (case map_of fs src of
        None \<Rightarrow> None
      | Some c \<Rightarrow> Some (AList.update dst c (AList.delete src fs)))"

definition readdir :: "string \<Rightarrow> 'a filesystem \<Rightarrow> string list" where
  "readdir dir fs = remdups (map snd (filter (\<lambda>p. fst p = dir) (map fst fs)))"

text \<open>\<^verbatim>\<open>promise.catch(() => {})\<close>: a failed operation leaves the files as they were.\<close>

definition catchIgnore :: "'a filesystem option \<Rightarrow> 'a filesystem \<Rightarrow> 'a filesystem" where
  "catchIgnore r fs = (case r of None \<Rightarrow> fs | Some fs' \<Rightarrow> fs')"

text \<open>
  The world outside the daemon object. \<open>errorBundlesDir\<close> is the value of
  \<^verbatim>\<open>resolveErrorBundlesDir()\<close> (it depends on \<^verbatim>\<open>resolveStateDir\<close> and the process
  environment); \<open>stateFile\<close> is the file at \<^verbatim>\<open>resolveDaemonStatePath()\<close>; \<open>now\<close> is
  what \<^verbatim>\<open>new Date().toISOString()\<close> returns; \<open>processPid\<close> is \<^verbatim>\<open>process.pid\<close>;
  \<open>livePids\<close> are the processes for which \<^verbatim>\<open>process.kill(pid, 0)\<close> returns instead
  of raising; \<open>watcherStarts\<close> tells whether \<^verbatim>\<open>chokidar.watch\<close> returns a watcher.
\<close>

record world =
  errorBundlesDir :: string
  files :: "ErrorBundle json_text filesystem"
  stateFile :: "ErrorFeedbackDaemonState json_text option"
  now :: string
  processPid :: int
  livePids :: "int list"
  watcherStarts :: bool

section \<open>paths.ts\<close>

definition pathJoin :: "string \<Rightarrow> string \<Rightarrow> string" where
  "pathJoin dir name = dir @ ''/'' @ name"

definition resolvePendingBundlesDir :: "world \<Rightarrow> string" where
  "resolvePendingBundlesDir w = pathJoin (errorBundlesDir w) ''pending''"

definition resolveProcessedBundlesDir :: "world \<Rightarrow> string" where
  "resolveProcessedBundlesDir w = pathJoin (errorBundlesDir w) ''processed''"

definition buildBundleFilename :: "string \<Rightarrow> string" where
  "buildBundleFilename bundleId' = ''error-'' @ bundleId' @ ''.json''"

text \<open>A template literal prints a missing value as \<^verbatim>\<open>undefined\<close>.\<close>

definition template :: "string option \<Rightarrow> string" where
  "template s = (case s of None \<Rightarrow> ''undefined'' | Some t \<Rightarrow> t)"

section \<open>bundle-writer.ts\<close>

text \<open>
  A raw error is seen through the three functions \<^verbatim>\<open>toErrorEntry\<close> applies to it:
  \<^verbatim>\<open>formatErrorMessage\<close>, the \<^verbatim>\<open>stack\<close> of an \<^verbatim>\<open>Error\<close>, and
  \<^verbatim>\<open>extractErrorCode\<close>.
\<close>

record raw_error =
  formatErrorMessage :: string
  errorStack :: "string option"
  extractErrorCode :: "string option"

record error_param =
  error :: raw_error
  paramSeverity :: "ErrorBundleSeverity option"

record WriteErrorBundleParams =
  paramSource :: ErrorBundleSource
  paramContext :: "ErrorBundleContext option"
  paramErrors :: "error_param list"
  paramMaxRetries :: "int option"

definition DEFAULT_MAX_RETRIES :: int where
  "DEFAULT_MAX_RETRIES = 3"

definition toErrorEntry :: "error_param \<Rightarrow> ErrorBundleEntry" where
  "toErrorEntry raw =
     (let err = error raw
      in \<lparr>message = formatErrorMessage err,
          stack = errorStack err,
          severity = (case paramSeverity raw of None \<Rightarrow> SeverityError | Some s \<Rightarrow> s),
          code = extractErrorCode err\<rparr>)"

text \<open>\<^verbatim>\<open>params.context?.field\<close>: every field is missing when the context is.\<close>

definition contextOf :: "ErrorBundleContext option \<Rightarrow> ErrorBundleContext" where
  "contextOf c =
     \<lparr>command = (case c of None \<Rightarrow> None | Some x \<Rightarrow> command x),
      workspaceDir = (case c of None \<Rightarrow> None | Some x \<Rightarrow> workspaceDir x),
      environment = (case c of None \<Rightarrow> None | Some x \<Rightarrow> environment x),
      relatedFiles = (case c of None \<Rightarrow> None | Some x \<Rightarrow> relatedFiles x),
      skillContent = (case c of None \<Rightarrow> None | Some x \<Rightarrow> skillContent x)\<rparr>"

text \<open>
  \<open>writeErrorBundle\<close> takes the two values \<^verbatim>\<open>randomUUID()\<close> returns, the bundle's
  identifier and the suffix of the temporary file. The bundle is written to the
  temporary path and renamed into place; on a failure the temporary file is removed
  and the failure is raised (\<open>None\<close>).
\<close>

definition writeErrorBundle ::
  "WriteErrorBundleParams \<Rightarrow> string \<Rightarrow> string \<Rightarrow> world \<Rightarrow> (ErrorBundle option \<times> world)" where
  "writeErrorBundle params uuid tmpUuid w =
     (let entries = map toErrorEntry (paramErrors params);
          bundle = \<lparr>bundleId = Some uuid,
                    createdAt = now w,
                    version = Some 1,
                    source = paramSource params,
                    bundleContext = contextOf (paramContext params),
                    errors = entries,
                    retryCount = 0,
                    maxRetries = (case paramMaxRetries params of
                                    None \<Rightarrow> DEFAULT_MAX_RETRIES | Some m \<Rightarrow> m),
                    processed = False,
                    processedAt = None,
                    resolution = None\<rparr>;
          pendingDir = resolvePendingBundlesDir w;
          filePath = (pendingDir, buildBundleFilename uuid);
          tmpPath = (pendingDir, snd filePath @ ''.'' @ tmpUuid @ ''.tmp'');
          fs1 = writeFile tmpPath (Json bundle) (files w)
      in case rename tmpPath filePath fs1 of
           None \<Rightarrow> (None, w\<lparr>files := catchIgnore (unlink tmpPath fs1) fs1\<rparr>)
         | Some fs2 \<Rightarrow> (Some bundle, w\<lparr>files := fs2\<rparr>))"

text \<open>\<^verbatim>\<open>!parsed.id\<close>: a missing identifier and the empty string are falsy.\<close>

definition truthy :: "string option \<Rightarrow> bool" where
  "truthy s = (case s of None \<Rightarrow> False | Some t \<Rightarrow> t \<noteq> [])"

text \<open>
  \<open>readErrorBundle\<close> returns \<^verbatim>\<open>null\<close> (\<open>None\<close>) when the file cannot be read, when its
  text is not JSON, when reading \<^verbatim>\<open>parsed.id\<close> raises, and when the identifier is
  falsy or the version is not the number 1. Otherwise it returns the parsed object as
  it is.
\<close>

definition readErrorBundle :: "world \<Rightarrow> path \<Rightarrow> ErrorBundle option" where
  "readErrorBundle w filePath =
     (case readFile (files w) filePath of
        None \<Rightarrow> None
      | Some (NotJson _) \<Rightarrow> None
      | Some JsonNull \<Rightarrow> None
      | Some (Json parsed) \<Rightarrow>
          if \<not> truthy (bundleId parsed) \<or> version parsed \<noteq> Some 1 then None
          else Some parsed)"

definition startsWith :: "string \<Rightarrow> string \<Rightarrow> bool" where
  "startsWith s pre = (take (length pre) s = pre)"

definition endsWith :: "string \<Rightarrow> string \<Rightarrow> bool" where
  "endsWith s suf = (length suf \<le> length s \<and> drop (length s - length suf) s = suf)"

text \<open>
  \<open>listPendingBundles\<close>: the entries of the pending directory named
  \<^verbatim>\<open>error-*.json\<close>, joined with the directory and sorted. A directory that does not
  exist has no entries, which is the \<^verbatim>\<open>ENOENT\<close> branch.
\<close>

definition listPendingBundles :: "world \<Rightarrow> path list" where
  "listPendingBundles w =
     (let pendingDir = resolvePendingBundlesDir w;
          entries = readdir pendingDir (files w)
      in sort (map (\<lambda>name. (pendingDir, name))
                (filter (\<lambda>name. startsWith name ''error-'' \<and> endsWith name ''.json'') entries)))"

section \<open>daemon.ts\<close>

text \<open>
  A call of an external function either returns a value or throws; the thrown error is
  kept as the text \<^verbatim>\<open>formatErrorMessage\<close> gives for it. The processor and the two
  handlers are such functions. They are functions of their arguments and do not touch
  the bundle directories.
\<close>

datatype 'a outcome = Returns 'a | Throws string

type_synonym ErrorBundleProcessor = "ErrorBundle \<Rightarrow> ErrorBundleResolution outcome"

record ErrorFeedbackDaemonOptions =
  pollIntervalMs :: "nat option"
  optProcessor :: "ErrorBundleProcessor option"
  onBundleProcessed :: "(ErrorBundle \<Rightarrow> ErrorBundleResolution \<Rightarrow> unit outcome) option"
  onProcessError :: "(ErrorBundle \<Rightarrow> string \<Rightarrow> unit outcome) option"

definition DEFAULT_POLL_INTERVAL_MS :: nat where
  "DEFAULT_POLL_INTERVAL_MS = 5000"

definition MAX_BATCH_SIZE :: nat where
  "MAX_BATCH_SIZE = 10"

text \<open>
  The default processor prints the bundle and asks for a retry while the bundle is
  under its ceiling. Its console output is not part of the state.
\<close>

definition defaultProcessor :: ErrorBundleProcessor where
  "defaultProcessor bundle =
     Returns \<lparr>resolved = False,
              action = ''relayed to Claude Code for analysis'',
              modifiedFiles = None,
              retryTriggered = (retryCount bundle < maxRetries bundle)\<rparr>"

text \<open>
  The fields of the class. \<open>watcher\<close> and \<open>debounceTimer\<close> tell whether the field
  holds a watcher or a timer, \<open>pollTimer\<close> holds the interval of the running timer.
\<close>

record ErrorFeedbackDaemon =
  watcher :: bool
  pollTimer :: "nat option"
  debounceTimer :: bool
  processing :: bool
  state :: ErrorFeedbackDaemonState
  processor :: ErrorBundleProcessor
  options :: ErrorFeedbackDaemonOptions
  stopped :: bool

definition newDaemon :: "ErrorFeedbackDaemonOptions \<Rightarrow> ErrorFeedbackDaemon" where
  "newDaemon opts =
     \<lparr>watcher = False,
      pollTimer = None,
      debounceTimer = False,
      processing = False,
      state = \<lparr>status = Stopped, startedAt = None, lastPollAt = None,
               bundlesProcessed = 0, bundlesResolved = 0, bundlesFailed = 0, pid = None\<rparr>,
      processor = (case optProcessor opts of None \<Rightarrow> defaultProcessor | Some f \<Rightarrow> f),
      options = opts,
      stopped = False\<rparr>"

definition moveBundleToProcessed :: "ErrorBundle \<Rightarrow> world \<Rightarrow> world" where
  "moveBundleToProcessed bundle w =
     (let processedDir = resolveProcessedBundlesDir w;
          srcPath = (resolvePendingBundlesDir w, buildBundleFilename (template (bundleId bundle)));
          destPath = (processedDir, buildBundleFilename (template (bundleId bundle)));
          updated = bundle\<lparr>processed := True, processedAt := Some (now w)\<rparr>;
          fs1 = writeFile destPath (Json updated) (files w)
      in w\<lparr>files := catchIgnore (unlink srcPath fs1) fs1\<rparr>)"

definition persistState :: "ErrorFeedbackDaemon \<times> world \<Rightarrow> world" where
  "persistState dw = (snd dw)\<lparr>stateFile := Some (Json (state (fst dw)))\<rparr>"

definition scheduleBatch :: "ErrorFeedbackDaemon \<Rightarrow> ErrorFeedbackDaemon" where
  "scheduleBatch d = (if stopped d then d else d\<lparr>debounceTimer := True\<rparr>)"

definition start :: "ErrorFeedbackDaemon \<times> world \<Rightarrow> ErrorFeedbackDaemon \<times> world" where
  "start dw =
     (let d = fst dw; w = snd dw
      in if status (state d) = Running then (d, w)
         else
           let d1 = d\<lparr>stopped := False\<rparr>;
               d2 = d1\<lparr>state := \<lparr>status = Running,
                                 startedAt = Some (now w),
                                 lastPollAt = None,
                                 bundlesProcessed = 0,
                                 bundlesResolved = 0,
                                 bundlesFailed = 0,
                                 pid = Some (processPid w)\<rparr>\<rparr>;
               w1 = persistState (d2, w);
               d3 = (if watcherStarts w1 then d2\<lparr>watcher := True\<rparr> else d2);
               pollInterval = (case pollIntervalMs (options d3) of
                                 None \<Rightarrow> DEFAULT_POLL_INTERVAL_MS | Some n \<Rightarrow> n);
               d4 = d3\<lparr>pollTimer := Some pollInterval\<rparr>
           in (scheduleBatch d4, w1))"

definition stop :: "ErrorFeedbackDaemon \<times> world \<Rightarrow> ErrorFeedbackDaemon \<times> world" where
  "stop dw =
     (let d = fst dw; w = snd dw;
          d1 = d\<lparr>stopped := True\<rparr>;
          d2 = (if watcher d1 then d1\<lparr>watcher := False\<rparr> else d1);
          d3 = (if pollTimer d2 \<noteq> None then d2\<lparr>pollTimer := None\<rparr> else d2);
          d4 = (if debounceTimer d3 then d3\<lparr>debounceTimer := False\<rparr> else d3);
          d5 = d4\<lparr>state := (state d4)\<lparr>status := Stopped\<rparr>\<rparr>
      in (d5, persistState (d5, w)))"

definition getState :: "ErrorFeedbackDaemon \<Rightarrow> ErrorFeedbackDaemonState" where
  "getState d = state d"

text \<open>
  A step that can throw ends in \<open>Done\<close> or in \<open>Raised\<close> with the error's text; both
  carry the state reached, since the mutations made before a throw stay.
\<close>

datatype 's completion = Done 's | Raised string 's

fun final :: "'s completion \<Rightarrow> 's" where
  "final (Done s) = s"
| "final (Raised _ s) = s"

text \<open>
  The \<^verbatim>\<open>catch\<close> block of \<open>processBundle\<close>. The failed counter goes up, the error
  handler is called, the bundle gets the synthetic resolution and is moved. An error
  thrown by the handler leaves the block.
\<close>

definition processBundleCatch ::
  "ErrorBundle \<Rightarrow> string \<Rightarrow> ErrorFeedbackDaemon \<times> world \<Rightarrow> (ErrorFeedbackDaemon \<times> world) completion" where
  "processBundleCatch bundle err dw =
     (let d = fst dw; w = snd dw;
          d1 = d\<lparr>state := (state d)\<lparr>bundlesFailed := bundlesFailed (state d) + 1\<rparr>\<rparr>;
          handled = (case onProcessError (options d1) of
                       None \<Rightarrow> Returns ()
                     | Some h \<Rightarrow> h bundle err)
      in case handled of
           Throws e \<Rightarrow> Raised e (d1, w)
         | Returns _ \<Rightarrow>
             let bundle1 = bundle\<lparr>resolution :=
                   Some \<lparr>resolved = False,
                         action = ''processing failed: '' @ err,
                         modifiedFiles = None,
                         retryTriggered = False\<rparr>\<rparr>
             in Done (d1, moveBundleToProcessed bundle1 w))"

text \<open>
  The end of the \<^verbatim>\<open>try\<close> block: the move to the processed directory and the call of
  the \<^verbatim>\<open>onBundleProcessed\<close> handler, whose error is caught by the same
  \<^verbatim>\<open>catch\<close> block.
\<close>

definition processBundleMove ::
  "ErrorBundle \<Rightarrow> ErrorBundleResolution \<Rightarrow> ErrorFeedbackDaemon \<times> world \<Rightarrow>
   (ErrorFeedbackDaemon \<times> world) completion" where
  "processBundleMove bundle res dw =
     (let d = fst dw; w1 = moveBundleToProcessed bundle (snd dw);
          handled = (case onBundleProcessed (options d) of
                       None \<Rightarrow> Returns ()
                     | Some h \<Rightarrow> h bundle res)
      in case handled of
           Throws e \<Rightarrow> processBundleCatch bundle e (d, w1)
         | Returns _ \<Rightarrow> Done (d, w1))"

definition processBundle ::
  "ErrorBundle \<Rightarrow> ErrorFeedbackDaemon \<times> world \<Rightarrow> (ErrorFeedbackDaemon \<times> world) completion" where
  "processBundle bundle dw =
     (let d = fst dw; w = snd dw
      in case processor d bundle of
           Throws e \<Rightarrow> processBundleCatch bundle e (d, w)
         | Returns res \<Rightarrow>
             let bundle1 = bundle\<lparr>resolution := Some res\<rparr>;
                 d1 = d\<lparr>state := (state d)\<lparr>bundlesProcessed := bundlesProcessed (state d) + 1\<rparr>\<rparr>
             in if resolved res then
                  processBundleMove bundle1 res
                    (d1\<lparr>state := (state d1)\<lparr>bundlesResolved := bundlesResolved (state d1) + 1\<rparr>\<rparr>, w)
                else if retryTriggered res \<and> retryCount bundle1 < maxRetries bundle1 then
                  let bundle2 = bundle1\<lparr>retryCount := jsAdd (retryCount bundle1) 1\<rparr>;
                      pendingPath = (resolvePendingBundlesDir w,
                                     buildBundleFilename (template (bundleId bundle2)))
                  in Done (d1, w\<lparr>files := writeFile pendingPath (Json bundle2) (files w)\<rparr>)
                else
                  processBundleMove bundle1 res
                    (d1\<lparr>state := (state d1)\<lparr>bundlesFailed := bundlesFailed (state d1) + 1\<rparr>\<rparr>, w))"

text \<open>
  The body of the loop of \<open>processBatch\<close> for one file, after the test of the stop flag.
  The pause between two bundles changes nothing in the state.
\<close>

definition processFile ::
  "path \<Rightarrow> ErrorFeedbackDaemon \<times> world \<Rightarrow> (ErrorFeedbackDaemon \<times> world) completion" where
  "processFile filePath dw =
     (let d = fst dw; w = snd dw
      in case readErrorBundle w filePath of
           None \<Rightarrow>
             let badDir = pathJoin (resolveProcessedBundlesDir w) ''invalid''
             in Done (d, w\<lparr>files := catchIgnore (rename filePath (badDir, snd filePath) (files w))
                                      (files w)\<rparr>)
         | Some bundle \<Rightarrow>
             if processed bundle then Done (d, moveBundleToProcessed bundle w)
             else processBundle bundle (d, w))"

text \<open>
  The loop runs on one thread, and \<open>stop\<close> can be called by another task whenever the
  loop waits for a promise. \<open>stopCalls\<close> lists, iteration by iteration, whether \<open>stop\<close>
  is called while that iteration waits; an iteration beyond the list has no call.
  The call takes effect after the test of the stop flag and before the file is handled.
\<close>

definition stopCalled :: "bool list \<Rightarrow> bool" where
  "stopCalled stopCalls = (case stopCalls of [] \<Rightarrow> False | c # _ \<Rightarrow> c)"

fun processLoop ::
  "path list \<Rightarrow> bool list \<Rightarrow> ErrorFeedbackDaemon \<times> world \<Rightarrow>
   (ErrorFeedbackDaemon \<times> world) completion" where
  "processLoop [] stopCalls dw = Done dw"
| "processLoop (filePath # rest) stopCalls dw =
     (if stopped (fst dw) then Done dw
      else
        case processFile filePath (if stopCalled stopCalls then stop dw else dw) of
          Raised e dw' \<Rightarrow> Raised e dw'
        | Done dw' \<Rightarrow> processLoop rest (tl stopCalls) dw')"

definition processBatch ::
  "bool list \<Rightarrow> ErrorFeedbackDaemon \<times> world \<Rightarrow> ErrorFeedbackDaemon \<times> world" where
  "processBatch stopCalls dw =
     (let d = fst dw; w = snd dw
      in if processing d \<or> stopped d then (d, w)
         else
           let d1 = d\<lparr>processing := True, state := (state d)\<lparr>lastPollAt := Some (now w)\<rparr>\<rparr>;
               pendingFiles = listPendingBundles w;
               dw2 =
                 (if pendingFiles = [] then (d1, w)
                  else
                    case processLoop (take MAX_BATCH_SIZE pendingFiles) stopCalls (d1, w) of
                      Done dw' \<Rightarrow> dw'
                    | Raised e dw' \<Rightarrow>
                        ((fst dw')\<lparr>state := (state (fst dw'))\<lparr>status := StatusError\<rparr>\<rparr>, snd dw'));
               d3 = (fst dw2)\<lparr>processing := False\<rparr>
           in (d3, persistState (d3, snd dw2)))"

definition readDaemonState :: "world \<Rightarrow> ErrorFeedbackDaemonState option" where
  "readDaemonState w =
     (case stateFile w of
        Some (Json s) \<Rightarrow> Some s
      | _ \<Rightarrow> None)"

section \<open>lifecycle.ts\<close>

text \<open>
  The module variable \<^verbatim>\<open>activeDaemon\<close> is an argument. \<^verbatim>\<open>process.kill(pid, 0)\<close>
  returns for a live process and raises otherwise. The test \<^verbatim>\<open>persisted.pid\<close> is
  false for a missing pid and for the number 0.
\<close>

definition processKill0 :: "world \<Rightarrow> int \<Rightarrow> bool" where
  "processKill0 w p = (p \<in> set (livePids w))"

definition getErrorFeedbackDaemonStatus ::
  "ErrorFeedbackDaemon option \<Rightarrow> world \<Rightarrow> ErrorFeedbackDaemonState \<times> world" where
  "getErrorFeedbackDaemonStatus activeDaemon w =
     (case activeDaemon of
        Some d \<Rightarrow> (getState d, w)
      | None \<Rightarrow>
          (case readDaemonState w of
             Some persisted \<Rightarrow>
               (case pid persisted of
                  Some p \<Rightarrow>
                    if status persisted = Running \<and> p \<noteq> 0 then
                      if processKill0 w p then (persisted, w)
                      else (persisted\<lparr>status := Stopped\<rparr>, w)
                    else (persisted, w)
                | None \<Rightarrow> (persisted, w))
           | None \<Rightarrow>
               (\<lparr>status = Stopped, startedAt = None, lastPollAt = None,
                 bundlesProcessed = 0, bundlesResolved = 0, bundlesFailed = 0, pid = None\<rparr>, w)))"

section \<open>Notions used in the statements\<close>

text \<open>
  The path under which the daemon itself writes a bundle back to the pending
  directory: the directory joined with \<open>buildBundleFilename\<close> of the identifier.
\<close>

definition ownPath :: "world \<Rightarrow> ErrorBundle \<Rightarrow> path" where
  "ownPath w bundle = (resolvePendingBundlesDir w, buildBundleFilename (template (bundleId bundle)))"

text \<open>
  The identifier is the addressing key of the file: a file of the pending directory
  that \<open>readErrorBundle\<close> accepts is stored under the name built from its identifier.
\<close>

definition storedUnderOwnName :: "world \<Rightarrow> path \<Rightarrow> bool" where
  "storedUnderOwnName w p =
     (case readErrorBundle w p of
        None \<Rightarrow> True
      | Some b \<Rightarrow> snd p = buildBundleFilename (template (bundleId b)))"

text \<open>
  The handlers are supplied by the embedding application. \<open>errorHandlerReturns\<close>
  says that the \<^verbatim>\<open>onProcessError\<close> handler, when there is one, returns normally;
  \<open>bundleHandlerReturns\<close> says the same of one call of \<^verbatim>\<open>onBundleProcessed\<close>.
\<close>

definition errorHandlerReturns :: "ErrorFeedbackDaemon \<Rightarrow> bool" where
  "errorHandlerReturns d =
     (case onProcessError (options d) of
        None \<Rightarrow> True
      | Some h \<Rightarrow> \<forall>b e. h b e = Returns ())"

definition bundleHandlerReturns ::
  "ErrorFeedbackDaemon \<Rightarrow> ErrorBundle \<Rightarrow> ErrorBundleResolution \<Rightarrow> bool" where
  "bundleHandlerReturns d bundle res =
     (case onBundleProcessed (options d) of
        None \<Rightarrow> True
      | Some h \<Rightarrow> h bundle res = Returns ())"

text \<open>
  The contents \<open>readErrorBundle\<close> rejects: a text that is not JSON, the value
  \<^verbatim>\<open>null\<close>, an object without identifier (or with the empty one), an object whose
  version is not 1.
\<close>

definition invalidContent :: "ErrorBundle json_text \<Rightarrow> bool" where
  "invalidContent c =
     (case c of
        NotJson _ \<Rightarrow> True
      | JsonNull \<Rightarrow> True
      | Json b \<Rightarrow> \<not> truthy (bundleId b) \<or> version b \<noteq> Some 1)"

text \<open>The resolution the \<^verbatim>\<open>catch\<close> block of \<open>processBundle\<close> builds.\<close>

definition syntheticResolution :: "string \<Rightarrow> ErrorBundleResolution" where
  "syntheticResolution e =
     \<lparr>resolved = False, action = ''processing failed: '' @ e,
      modifiedFiles = None, retryTriggered = False\<rparr>"

subsection \<open>Example data\<close>

definition exampleOptions :: ErrorFeedbackDaemonOptions where
  "exampleOptions =
     \<lparr>pollIntervalMs = None, optProcessor = None, onBundleProcessed = None, onProcessError = None\<rparr>"

definition exampleBundle :: "string \<Rightarrow> ErrorBundle" where
  "exampleBundle i =
     \<lparr>bundleId = Some i,
      createdAt = ''2026-01-01T00:00:00.000Z'',
      version = Some 1,
      source = \<lparr>skillName = Some ''deploy'', agentId = None, sessionKey = None,
                cronJobId = None, channel = None\<rparr>,
      bundleContext = \<lparr>command = None, workspaceDir = None, environment = None,
                       relatedFiles = None, skillContent = None\<rparr>,
      errors = [\<lparr>message = ''boom'', stack = None, severity = SeverityError, code = None\<rparr>],
      retryCount = 0,
      maxRetries = 3,
      processed = False,
      processedAt = None,
      resolution = None\<rparr>"

definition exampleWorld :: "ErrorBundle json_text filesystem \<Rightarrow> world" where
  "exampleWorld fs =
     \<lparr>errorBundlesDir = ''/q'',
      files = fs,
      stateFile = None,
      now = ''2026-01-02T00:00:00.000Z'',
      processPid = 4242,
      livePids = [4242],
      watcherStarts = True\<rparr>"

definition exampleFiles :: "ErrorBundle json_text filesystem" where
  "exampleFiles =
     [((''/q/pending'', ''error-b.json''), Json (exampleBundle ''b'')),
      ((''/q/pending'', ''error-a.json''), NotJson ''{'')]"

definition exampleTwoBundles :: "ErrorBundle json_text filesystem" where
  "exampleTwoBundles =
     [((''/q/pending'', ''error-a.json''), Json (exampleBundle ''a'')),
      ((''/q/pending'', ''error-b.json''), Json (exampleBundle ''b''))]"

definition exampleStale :: ErrorBundle where
  "exampleStale =
     (exampleBundle ''s'')
       \<lparr>processed := True,
        processedAt := Some ''2026-01-01T12:00:00.000Z'',
        resolution := Some \<lparr>resolved = True, action = ''patched'', modifiedFiles = None,
                              retryTriggered = False\<rparr>\<rparr>"

text \<open>A bundle whose retry counter is \<open>2 ^ 53\<close> and whose ceiling is \<open>2 ^ 54\<close>.\<close>

definition exampleHuge :: ErrorBundle where
  "exampleHuge =
     (exampleBundle ''h'')\<lparr>retryCount := 9007199254740992, maxRetries := 18014398509481984\<rparr>"

text \<open>Options with a processor that throws and an error handler that throws.\<close>

definition exampleThrowingOptions :: ErrorFeedbackDaemonOptions where
  "exampleThrowingOptions =
     \<lparr>pollIntervalMs = None,
      optProcessor = Some (\<lambda>b. Throws ''timeout''),
      onBundleProcessed = None,
      onProcessError = Some (\<lambda>b e. Throws ''handler failed'')\<rparr>"

definition exampleExhausted :: ErrorBundle where
  "exampleExhausted = (exampleBundle ''b'')\<lparr>retryCount := 3\<rparr>"

definition exampleGiveUp :: ErrorBundleResolution where
  "exampleGiveUp =
     \<lparr>resolved = False, action = ''no fix found'', modifiedFiles = None, retryTriggered = True\<rparr>"

definition examplePersisted :: ErrorFeedbackDaemonState where
  "examplePersisted =
     \<lparr>status = Running,
      startedAt = Some ''2026-01-01T00:00:00.000Z'',
      lastPollAt = None,
      bundlesProcessed = 5,
      bundlesResolved = 3,
      bundlesFailed = 2,
      pid = Some 999\<rparr>"

definition exampleParams :: WriteErrorBundleParams where
  "exampleParams =
     \<lparr>paramSource = \<lparr>skillName = Some ''deploy'', agentId = None, sessionKey = None,
                     cronJobId = None, channel = None\<rparr>,
      paramContext = None,
      paramErrors = [\<lparr>error = \<lparr>formatErrorMessage = ''boom'', errorStack = None,
                                extractErrorCode = Some ''ENOENT''\<rparr>,
                      paramSeverity = None\<rparr>],
      paramMaxRetries = None\<rparr>"

section \<open>Numbers\<close>

lemma ulpExponent_small: "a < 2 ^ 53 \<Longrightarrow> ulpExponent a = 0"
  by (subst ulpExponent.simps) simp

lemma ulpExponent_large: "\<not> a < 2 ^ 53 \<Longrightarrow> ulpExponent a = Suc (ulpExponent (a div 2))"
  by (subst ulpExponent.simps) simp



lemmas number_defs =
  jsAdd_def roundToDouble_def ulpExponent_large ulpExponent_small

section \<open>The file system and the directories\<close>

lemma readFile_writeFile:
  "readFile (writeFile p c fs) q = (if q = p then Some c else readFile fs q)"
  by (simp add: readFile_def writeFile_def update_conv')

lemma readFile_unlink:
  "readFile (catchIgnore (unlink p fs) fs) q = (if q = p then None else readFile fs q)"
  by (auto simp: readFile_def unlink_def catchIgnore_def delete_conv' split: option.splits)

lemma readFile_rename:
  "readFile (catchIgnore (rename src dst fs) fs) q =
     (case readFile fs src of
        None \<Rightarrow> readFile fs q
      | Some c \<Rightarrow> if q = dst then Some c else if q = src then None else readFile fs q)"
  by (auto simp: readFile_def rename_def catchIgnore_def delete_conv' update_conv' split: option.splits)

lemma dirs_differ:
  "resolvePendingBundlesDir w \<noteq> resolveProcessedBundlesDir w"
  "resolvePendingBundlesDir w \<noteq> pathJoin (resolveProcessedBundlesDir w) ''invalid''"
  "resolveProcessedBundlesDir w \<noteq> pathJoin (resolveProcessedBundlesDir w) ''invalid''"
  by (simp_all add: resolvePendingBundlesDir_def resolveProcessedBundlesDir_def pathJoin_def)

lemma ownPath_processed_ne:
  "(resolveProcessedBundlesDir w, n) \<noteq> ownPath w bundle"
  using dirs_differ(1) [of w] by (auto simp: ownPath_def)

lemma dirs_of_world:
  "errorBundlesDir w' = errorBundlesDir w \<Longrightarrow> resolvePendingBundlesDir w' = resolvePendingBundlesDir w"
  "errorBundlesDir w' = errorBundlesDir w \<Longrightarrow> resolveProcessedBundlesDir w' = resolveProcessedBundlesDir w"
  by (simp_all add: resolvePendingBundlesDir_def resolveProcessedBundlesDir_def)

lemma readErrorBundle_cong:
  "readFile (files w') p = readFile (files w) p \<Longrightarrow> readErrorBundle w' p = readErrorBundle w p"
  by (simp add: readErrorBundle_def)

lemma storedUnderOwnName_cong:
  "readFile (files w') p = readFile (files w) p \<Longrightarrow> storedUnderOwnName w' p = storedUnderOwnName w p"
  using readErrorBundle_cong [of w' p w] by (simp add: storedUnderOwnName_def)

lemma readErrorBundle_None_iff:
  "readErrorBundle w p = None \<longleftrightarrow>
     (case readFile (files w) p of None \<Rightarrow> True | Some c \<Rightarrow> invalidContent c)"
  by (simp add: readErrorBundle_def invalidContent_def split: option.splits json_text.splits)

lemma listPendingBundles_set:
  "set (listPendingBundles w) =
     {(resolvePendingBundlesDir w, name) | name.
        name \<in> set (readdir (resolvePendingBundlesDir w) (files w))
        \<and> startsWith name ''error-'' \<and> endsWith name ''.json''}"
  by (auto simp: listPendingBundles_def Let_def)

lemma readdir_exists:
  "name \<in> set (readdir dir fs) \<longleftrightarrow> readFile fs (dir, name) \<noteq> None"
proof -
  have "name \<in> set (readdir dir fs) \<longleftrightarrow> (dir, name) \<in> fst ` set fs"
    by (force simp: readdir_def)
  then show ?thesis
    by (simp add: readFile_def map_of_eq_None_iff)
qed

lemma listPendingBundles_fst:
  "p \<in> set (listPendingBundles w) \<Longrightarrow> fst p = resolvePendingBundlesDir w"
  by (auto simp: listPendingBundles_set)

lemma listPendingBundles_exists:
  "p \<in> set (listPendingBundles w) \<Longrightarrow> readFile (files w) p \<noteq> None"
  by (auto simp: listPendingBundles_set readdir_exists)

lemma listPendingBundles_distinct:
  "distinct (map snd (listPendingBundles w))"
proof -
  have d: "distinct (listPendingBundles w)"
    by (simp add: listPendingBundles_def Let_def distinct_map readdir_def inj_on_def)
  have "inj_on snd (set (listPendingBundles w))"
    by (auto simp: inj_on_def listPendingBundles_set)
  with d show ?thesis by (simp add: distinct_map)
qed

lemma batch_facts:
  assumes "take n (listPendingBundles w) = pre @ t # post"
  shows "distinct (map snd (pre @ t # post))"
    and "fst t = resolvePendingBundlesDir w"
    and "t \<in> set (listPendingBundles w)"
proof -
  have "distinct (map snd (take n (listPendingBundles w)))"
    using listPendingBundles_distinct [of w] by (simp add: take_map [symmetric])
  then show "distinct (map snd (pre @ t # post))" using assms by simp
  have "t \<in> set (take n (listPendingBundles w))" using assms by simp
  then show "t \<in> set (listPendingBundles w)" by (rule in_set_takeD)
  then show "fst t = resolvePendingBundlesDir w" by (rule listPendingBundles_fst)
qed

section \<open>One file of the batch\<close>

text \<open>What a step leaves alone: the settings of the daemon and of the world.\<close>

lemma moveBundleToProcessed_world:
  "errorBundlesDir (moveBundleToProcessed b w) = errorBundlesDir w"
  "now (moveBundleToProcessed b w) = now w"
  "stateFile (moveBundleToProcessed b w) = stateFile w"
  by (simp_all add: moveBundleToProcessed_def Let_def)

lemma readFile_moveBundleToProcessed:
  "readFile (files (moveBundleToProcessed b w)) q =
     (if q = (resolvePendingBundlesDir w, buildBundleFilename (template (bundleId b))) then None
      else if q = (resolveProcessedBundlesDir w, buildBundleFilename (template (bundleId b)))
        then Some (Json (b\<lparr>processed := True, processedAt := Some (now w)\<rparr>))
      else readFile (files w) q)"
  using dirs_differ(1) [of w]
  by (auto simp: moveBundleToProcessed_def Let_def readFile_unlink readFile_writeFile)

lemma processBundleCatch_fields:
  "stopped (fst (final (processBundleCatch b e (d, w)))) = stopped d"
  "options (fst (final (processBundleCatch b e (d, w)))) = options d"
  "processor (fst (final (processBundleCatch b e (d, w)))) = processor d"
  "errorBundlesDir (snd (final (processBundleCatch b e (d, w)))) = errorBundlesDir w"
  "now (snd (final (processBundleCatch b e (d, w)))) = now w"
  by (simp_all add: processBundleCatch_def Let_def moveBundleToProcessed_world
        split: outcome.splits option.splits)

lemma processBundleMove_fields:
  "stopped (fst (final (processBundleMove b r (d, w)))) = stopped d"
  "options (fst (final (processBundleMove b r (d, w)))) = options d"
  "processor (fst (final (processBundleMove b r (d, w)))) = processor d"
  "errorBundlesDir (snd (final (processBundleMove b r (d, w)))) = errorBundlesDir w"
  "now (snd (final (processBundleMove b r (d, w)))) = now w"
  by (simp_all add: processBundleMove_def Let_def moveBundleToProcessed_world processBundleCatch_fields
        split: outcome.splits option.splits)

lemma processBundle_fields:
  "stopped (fst (final (processBundle b (d, w)))) = stopped d"
  "options (fst (final (processBundle b (d, w)))) = options d"
  "processor (fst (final (processBundle b (d, w)))) = processor d"
  "errorBundlesDir (snd (final (processBundle b (d, w)))) = errorBundlesDir w"
  "now (snd (final (processBundle b (d, w)))) = now w"
  by (simp_all add: processBundle_def Let_def processBundleMove_fields processBundleCatch_fields
        split: outcome.splits option.splits)

lemma processFile_fields:
  "stopped (fst (final (processFile p (d, w)))) = stopped d"
  "options (fst (final (processFile p (d, w)))) = options d"
  "processor (fst (final (processFile p (d, w)))) = processor d"
  "errorBundlesDir (snd (final (processFile p (d, w)))) = errorBundlesDir w"
  "now (snd (final (processFile p (d, w)))) = now w"
  by (simp_all add: processFile_def Let_def processBundle_fields moveBundleToProcessed_world
        split: outcome.splits option.splits)

lemma stop_fields:
  "stopped (fst (stop dw))"
  "options (fst (stop dw)) = options (fst dw)"
  "processor (fst (stop dw)) = processor (fst dw)"
  "files (snd (stop dw)) = files (snd dw)"
  "errorBundlesDir (snd (stop dw)) = errorBundlesDir (snd dw)"
  "now (snd (stop dw)) = now (snd dw)"
  by (simp_all add: stop_def Let_def persistState_def)

lemma errorHandlerReturns_cong:
  "options d' = options d \<Longrightarrow> errorHandlerReturns d' = errorHandlerReturns d"
  by (simp add: errorHandlerReturns_def)

text \<open>
  A step on a file stored under its own name touches entries of that name only, in the
  pending, the processed and the invalid directory.
\<close>

lemma processBundleCatch_frame:
  assumes "snd q \<noteq> buildBundleFilename (template (bundleId b))"
  shows "readFile (files (snd (final (processBundleCatch b e (d, w))))) q = readFile (files w) q"
  using assms
  by (cases q)
     (simp add: processBundleCatch_def Let_def readFile_moveBundleToProcessed
        split: outcome.splits option.splits)

lemma processBundleMove_frame:
  assumes "snd q \<noteq> buildBundleFilename (template (bundleId b))"
  shows "readFile (files (snd (final (processBundleMove b r (d, w))))) q = readFile (files w) q"
  using assms
  by (cases q)
     (simp add: processBundleMove_def Let_def readFile_moveBundleToProcessed processBundleCatch_frame
        split: outcome.splits option.splits)

lemma processBundle_frame:
  assumes "snd q \<noteq> buildBundleFilename (template (bundleId b))"
  shows "readFile (files (snd (final (processBundle b (d, w))))) q = readFile (files w) q"
  using assms
  by (cases q)
     (simp add: processBundle_def Let_def readFile_writeFile processBundleMove_frame processBundleCatch_frame
        split: outcome.splits option.splits)

lemma processFile_frame:
  assumes "storedUnderOwnName w p" "snd q \<noteq> snd p"
  shows "readFile (files (snd (final (processFile p (d, w))))) q = readFile (files w) q"
  using assms
  by (cases q)
     (auto simp: processFile_def Let_def storedUnderOwnName_def readFile_rename
        readFile_moveBundleToProcessed processBundle_frame
        split: outcome.splits option.splits)

lemma processFile_keeps_names:
  assumes "storedUnderOwnName w p" "\<forall>p'\<in>set ps. storedUnderOwnName w p'" "snd p \<notin> snd ` set ps"
  shows "\<forall>p'\<in>set ps. storedUnderOwnName (snd (final (processFile p (d, w)))) p'"
proof
  fix p' assume p': "p' \<in> set ps"
  then have "snd p' \<in> snd ` set ps" by (rule imageI)
  with assms(3) have ne: "snd p' \<noteq> snd p" by metis
  have "readFile (files (snd (final (processFile p (d, w))))) p' = readFile (files w) p'"
    by (rule processFile_frame [OF assms(1) ne])
  then show "storedUnderOwnName (snd (final (processFile p (d, w)))) p'"
    using storedUnderOwnName_cong [of "snd (final (processFile p (d, w)))" p' w] assms(2) p' by simp
qed

text \<open>With a handler that returns, no error leaves a step.\<close>

lemma processBundleCatch_Done:
  "errorHandlerReturns d \<Longrightarrow> \<exists>dw'. processBundleCatch b e (d, w) = Done dw'"
  by (auto simp: processBundleCatch_def Let_def errorHandlerReturns_def split: option.splits outcome.splits)

lemma processBundleMove_Done:
  "errorHandlerReturns d \<Longrightarrow> \<exists>dw'. processBundleMove b r (d, w) = Done dw'"
  using processBundleCatch_Done [of d]
  by (auto simp: processBundleMove_def Let_def split: option.splits outcome.splits)

lemma processBundle_Done:
  assumes "errorHandlerReturns d"
  shows "\<exists>dw'. processBundle b (d, w) = Done dw'"
proof (cases "processor d b")
  case (Throws e)
  then show ?thesis
    using processBundleCatch_Done [OF assms] by (simp add: processBundle_def)
next
  case (Returns r)
  have h: "\<And>s b'. errorHandlerReturns (d\<lparr>state := s\<rparr>)"
    using assms by (simp add: errorHandlerReturns_def)
  show ?thesis
    using Returns processBundleMove_Done [OF h]
    by (simp add: processBundle_def Let_def)
qed

lemma processFile_Done:
  "errorHandlerReturns d \<Longrightarrow> \<exists>dw'. processFile p (d, w) = Done dw'"
  using processBundle_Done [of d]
  by (auto simp: processFile_def Let_def split: option.splits)


lemma processFile_throw:
  assumes "readErrorBundle w t = Some bundle" "\<not> processed bundle"
    "processor d bundle = Throws e" "errorHandlerReturns d"
  shows "processFile t (d, w) =
           Done (d\<lparr>state := (state d)\<lparr>bundlesFailed := bundlesFailed (state d) + 1\<rparr>\<rparr>,
                 moveBundleToProcessed (bundle\<lparr>resolution := Some (syntheticResolution e)\<rparr>) w)"
  using assms
  by (auto simp: processFile_def processBundle_def processBundleCatch_def Let_def
        errorHandlerReturns_def syntheticResolution_def split: option.splits outcome.splits)

lemma processFile_invalid:
  assumes "readFile (files w) t = Some c" "invalidContent c"
  shows "processFile t (d, w) =
           Done (d, w\<lparr>files := catchIgnore
             (rename t (pathJoin (resolveProcessedBundlesDir w) ''invalid'', snd t) (files w)) (files w)\<rparr>)"
  using assms readErrorBundle_None_iff [of w t]
  by (simp add: processFile_def Let_def)

lemma processBundleCatch_counters:
  "bundlesProcessed (state (fst (final (processBundleCatch b e (d, w))))) = bundlesProcessed (state d)"
  "bundlesResolved (state (fst (final (processBundleCatch b e (d, w))))) = bundlesResolved (state d)"
  "bundlesFailed (state (fst (final (processBundleCatch b e (d, w))))) = bundlesFailed (state d) + 1"
  by (simp_all add: processBundleCatch_def Let_def split: outcome.splits option.splits)

lemma processBundleMove_processed:
  "bundlesProcessed (state (fst (final (processBundleMove b r (d, w))))) = bundlesProcessed (state d)"
  by (simp add: processBundleMove_def Let_def processBundleCatch_counters split: outcome.splits option.splits)

section \<open>The loop and the batch run\<close>

lemma processLoop_stopped:
  "stopped (fst dw) \<Longrightarrow> processLoop ps sc dw = Done dw"
  by (cases ps) simp_all

lemma processLoop_fields:
  "errorBundlesDir (snd (final (processLoop ps sc dw))) = errorBundlesDir (snd dw)"
proof (induction ps arbitrary: sc dw)
  case Nil
  then show ?case by simp
next
  case (Cons p ps)
  define dw1 where "dw1 = (if stopCalled sc then stop dw else dw)"
  have a: "errorBundlesDir (snd dw1) = errorBundlesDir (snd dw)"
    by (simp add: dw1_def stop_fields)
  have b: "errorBundlesDir (snd (final (processFile p dw1))) = errorBundlesDir (snd dw)"
    using processFile_fields(4) [of p "fst dw1" "snd dw1"] a by simp
  show ?case
  proof (cases "processFile p dw1")
    case (Done dw')
    then show ?thesis using b Cons.IH [of "tl sc" dw'] by (simp add: dw1_def)
  next
    case (Raised e dw')
    then show ?thesis using b by (simp add: dw1_def)
  qed
qed

lemma processBatch_errorBundlesDir:
  "errorBundlesDir (snd (processBatch sc (d, w))) = errorBundlesDir w"
proof -
  define d0 where "d0 = d\<lparr>processing := True, state := (state d)\<lparr>lastPollAt := Some (now w)\<rparr>\<rparr>"
  define x where "x = processLoop (take MAX_BATCH_SIZE (listPendingBundles w)) sc (d0, w)"
  have "errorBundlesDir (snd (final x)) = errorBundlesDir w"
    using processLoop_fields [of "take MAX_BATCH_SIZE (listPendingBundles w)" sc "(d0, w)"]
    by (simp add: x_def)
  then show ?thesis
    by (cases x) (simp_all add: processBatch_def Let_def persistState_def x_def [symmetric] d0_def [symmetric])
qed

lemma processLoop_frame:
  assumes "\<forall>p\<in>set ps. storedUnderOwnName (snd dw) p" "distinct (map snd ps)"
    "snd q \<notin> snd ` set ps"
  shows "readFile (files (snd (final (processLoop ps sc dw)))) q = readFile (files (snd dw)) q"
  using assms
proof (induction ps arbitrary: sc dw)
  case Nil
  then show ?case by simp
next
  case (Cons p ps)
  show ?case
  proof (cases "stopped (fst dw)")
    case True
    then show ?thesis by simp
  next
    case False
    define dw1 where "dw1 = (if stopCalled sc then stop dw else dw)"
    have files1: "files (snd dw1) = files (snd dw)"
      by (simp add: dw1_def stop_fields)
    have own1: "storedUnderOwnName (snd dw1) p"
      using Cons.prems(1) storedUnderOwnName_cong [of "snd dw1" p "snd dw"] files1 by simp
    have q: "snd q \<noteq> snd p" using Cons.prems(3) by auto
    have step: "readFile (files (snd (final (processFile p dw1)))) q = readFile (files (snd dw)) q"
      using processFile_frame [OF own1 q, of "fst dw1"] files1 by simp
    show ?thesis
    proof (cases "processFile p dw1")
      case (Raised e dw')
      then show ?thesis using False step by (simp add: dw1_def)
    next
      case (Done dw')
      have rest: "\<forall>p'\<in>set ps. storedUnderOwnName (snd dw') p'"
      proof
        fix p' assume p': "p' \<in> set ps"
        then have "snd p' \<in> snd ` set ps" by (rule imageI)
        moreover have "snd p \<notin> snd ` set ps" using Cons.prems(2) by simp
        ultimately have ne: "snd p' \<noteq> snd p" by metis
        have "readFile (files (snd dw')) p' = readFile (files (snd dw)) p'"
          using processFile_frame [OF own1 ne, of "fst dw1"] files1 Done by simp
        then show "storedUnderOwnName (snd dw') p'"
          using storedUnderOwnName_cong [of "snd dw'" p' "snd dw"] Cons.prems(1) p' by simp
      qed
      have "readFile (files (snd (final (processLoop ps (tl sc) dw')))) q = readFile (files (snd dw')) q"
        using Cons.IH [OF rest] Cons.prems(2,3) by simp
      then show ?thesis using False Done step by (simp add: dw1_def)
    qed
  qed
qed

lemma processLoop_reaches:
  assumes "\<forall>p\<in>set (pre @ t # post). storedUnderOwnName (snd dw) p"
    "distinct (map snd (pre @ t # post))"
    "\<not> stopped (fst dw)" "errorHandlerReturns (fst dw)"
    "True \<notin> set (take (length pre) sc)"
  shows "\<exists>dw1 dw2. processFile t dw1 = Done dw2
       \<and> (\<forall>q. snd q = snd t \<longrightarrow> readFile (files (snd dw1)) q = readFile (files (snd dw)) q)
       \<and> (\<forall>q. snd q = snd t \<longrightarrow>
             readFile (files (snd (final (processLoop (pre @ t # post) sc dw)))) q
               = readFile (files (snd dw2)) q)
       \<and> options (fst dw1) = options (fst dw) \<and> processor (fst dw1) = processor (fst dw)
       \<and> errorBundlesDir (snd dw1) = errorBundlesDir (snd dw) \<and> now (snd dw1) = now (snd dw)"
  using assms
proof (induction pre arbitrary: sc dw)
  case Nil
  define dw1 where "dw1 = (if stopCalled sc then stop dw else dw)"
  have same: "files (snd dw1) = files (snd dw)" "options (fst dw1) = options (fst dw)"
    "processor (fst dw1) = processor (fst dw)" "errorBundlesDir (snd dw1) = errorBundlesDir (snd dw)"
    "now (snd dw1) = now (snd dw)"
    by (simp_all add: dw1_def stop_fields)
  have "errorHandlerReturns (fst dw1)"
    using Nil.prems(4) errorHandlerReturns_cong [OF same(2)] by simp
  then obtain dw2 where dw2: "processFile t dw1 = Done dw2"
    using processFile_Done [of "fst dw1" t "snd dw1"] by auto
  have own1: "storedUnderOwnName (snd dw1) t" "\<forall>p'\<in>set post. storedUnderOwnName (snd dw1) p'"
    using Nil.prems(1) storedUnderOwnName_cong [of "snd dw1" _ "snd dw"] same(1) by simp_all
  have notin: "snd t \<notin> snd ` set post" using Nil.prems(2) by simp
  have own2: "\<forall>p'\<in>set post. storedUnderOwnName (snd dw2) p'"
    using processFile_keeps_names [OF own1 notin, of "fst dw1"] dw2 by simp
  have dist: "distinct (map snd post)" using Nil.prems(2) by simp
  have fin: "\<forall>q. snd q = snd t \<longrightarrow>
      readFile (files (snd (final (processLoop post (tl sc) dw2)))) q = readFile (files (snd dw2)) q"
    using processLoop_frame [OF own2 dist] notin by simp
  have loop: "processLoop ([] @ t # post) sc dw = processLoop post (tl sc) dw2"
    using Nil.prems(3) dw2 by (simp add: dw1_def)
  show ?case
    using dw2 same fin unfolding loop by (intro exI [of _ dw1] exI [of _ dw2]) simp
next
  case (Cons p pre)
  have nostop: "\<not> stopCalled sc" "True \<notin> set (take (length pre) (tl sc))"
    using Cons.prems(5) by (cases sc; simp add: stopCalled_def)+
  have "errorHandlerReturns (fst dw)" by (rule Cons.prems(4))
  then obtain dw' where dw': "processFile p dw = Done dw'"
    using processFile_Done [of "fst dw" p "snd dw"] by auto
  have ownp: "storedUnderOwnName (snd dw) p"
    and ownrest: "\<forall>p'\<in>set (pre @ t # post). storedUnderOwnName (snd dw) p'"
    using Cons.prems(1) by simp_all
  have notin: "snd p \<notin> snd ` set (pre @ t # post)" and dist: "distinct (map snd (pre @ t # post))"
    using Cons.prems(2) by auto
  have own': "\<forall>p'\<in>set (pre @ t # post). storedUnderOwnName (snd dw') p'"
    using processFile_keeps_names [OF ownp ownrest notin, of "fst dw"] dw' by simp
  have flds: "stopped (fst dw') = stopped (fst dw)" "options (fst dw') = options (fst dw)"
    "processor (fst dw') = processor (fst dw)" "errorBundlesDir (snd dw') = errorBundlesDir (snd dw)"
    "now (snd dw') = now (snd dw)"
    using processFile_fields [of p "fst dw" "snd dw"] dw' by simp_all
  have ns': "\<not> stopped (fst dw')" using flds(1) Cons.prems(3) by simp
  have eh': "errorHandlerReturns (fst dw')"
    using Cons.prems(4) errorHandlerReturns_cong [OF flds(2)] by simp
  obtain dw1 dw2 where r: "processFile t dw1 = Done dw2"
    "\<forall>q. snd q = snd t \<longrightarrow> readFile (files (snd dw1)) q = readFile (files (snd dw')) q"
    "\<forall>q. snd q = snd t \<longrightarrow>
             readFile (files (snd (final (processLoop (pre @ t # post) (tl sc) dw')))) q
               = readFile (files (snd dw2)) q"
    "options (fst dw1) = options (fst dw')" "processor (fst dw1) = processor (fst dw')"
    "errorBundlesDir (snd dw1) = errorBundlesDir (snd dw')" "now (snd dw1) = now (snd dw')"
    using Cons.IH [OF own' dist ns' eh' nostop(2)] by blast
  have tp: "snd t \<noteq> snd p" using notin by auto
  have pres: "\<forall>q. snd q = snd t \<longrightarrow> readFile (files (snd dw')) q = readFile (files (snd dw)) q"
    using processFile_frame [OF ownp, of _ "fst dw"] dw' tp by simp
  have loop: "processLoop ((p # pre) @ t # post) sc dw = processLoop (pre @ t # post) (tl sc) dw'"
    using Cons.prems(3) nostop(1) dw' by simp
  show ?case
    unfolding loop using r pres flds
    by (intro exI [of _ dw1] exI [of _ dw2]) simp
qed

lemma processBatch_files:
  assumes "\<not> processing d" "\<not> stopped d" "take MAX_BATCH_SIZE (listPendingBundles w) = pre @ t # post"
  shows "files (snd (processBatch sc (d, w))) =
           files (snd (final (processLoop (pre @ t # post) sc
             (d\<lparr>processing := True, state := (state d)\<lparr>lastPollAt := Some (now w)\<rparr>\<rparr>, w))))"
proof -
  have ne: "listPendingBundles w \<noteq> []" using assms(3) by auto
  show ?thesis
    using assms(1,2) ne
    by (simp add: processBatch_def Let_def assms(3) persistState_def split: completion.splits)
qed

lemma processBatch_reaches:
  assumes "\<not> processing d" "\<not> stopped d"
    "take MAX_BATCH_SIZE (listPendingBundles w) = pre @ t # post"
    "True \<notin> set (take (length pre) sc)"
    "errorHandlerReturns d"
    "\<forall>p\<in>set (pre @ t # post). storedUnderOwnName w p"
  shows "\<exists>d1 w1 dw2. processFile t (d1, w1) = Done dw2
       \<and> (\<forall>q. snd q = snd t \<longrightarrow> readFile (files w1) q = readFile (files w) q)
       \<and> (\<forall>q. snd q = snd t \<longrightarrow>
             readFile (files (snd (processBatch sc (d, w)))) q = readFile (files (snd dw2)) q)
       \<and> options d1 = options d \<and> processor d1 = processor d
       \<and> errorBundlesDir w1 = errorBundlesDir w \<and> now w1 = now w"
proof -
  define d0 where "d0 = d\<lparr>processing := True, state := (state d)\<lparr>lastPollAt := Some (now w)\<rparr>\<rparr>"
  have a: "\<forall>p\<in>set (pre @ t # post). storedUnderOwnName (snd (d0, w)) p"
    using assms(6) by simp
  have b: "\<not> stopped (fst (d0, w))" using assms(2) by (simp add: d0_def)
  have c: "errorHandlerReturns (fst (d0, w))"
    using assms(5) by (simp add: d0_def errorHandlerReturns_def)
  have f: "files (snd (processBatch sc (d, w))) =
           files (snd (final (processLoop (pre @ t # post) sc (d0, w))))"
    unfolding d0_def by (rule processBatch_files [OF assms(1,2,3)])
  obtain dw1 dw2 where r: "processFile t dw1 = Done dw2"
     "\<forall>q. snd q = snd t \<longrightarrow> readFile (files (snd dw1)) q = readFile (files (snd (d0, w))) q"
     "\<forall>q. snd q = snd t \<longrightarrow>
             readFile (files (snd (final (processLoop (pre @ t # post) sc (d0, w))))) q
               = readFile (files (snd dw2)) q"
     "options (fst dw1) = options (fst (d0, w))" "processor (fst dw1) = processor (fst (d0, w))"
     "errorBundlesDir (snd dw1) = errorBundlesDir (snd (d0, w))" "now (snd dw1) = now (snd (d0, w))"
    using processLoop_reaches [OF a batch_facts(1) [OF assms(3)] b c assms(4)] by blast
  show ?thesis
    using r f
    by (intro exI [of _ "fst dw1"] exI [of _ "snd dw1"] exI [of _ dw2]) (simp add: d0_def)
qed

subsection \<open>The example data, evaluated\<close>

lemma example_listing:
  "listPendingBundles (exampleWorld exampleFiles) =
     [(''/q/pending'', ''error-a.json''), (''/q/pending'', ''error-b.json'')]"
  by (simp add: listPendingBundles_def exampleWorld_def exampleFiles_def readdir_def
        resolvePendingBundlesDir_def pathJoin_def startsWith_def endsWith_def Let_def)

lemma example_reads:
  "readErrorBundle (exampleWorld exampleFiles) (''/q/pending'', ''error-a.json'') = None"
  "readErrorBundle (exampleWorld exampleFiles) (''/q/pending'', ''error-b.json'') = Some (exampleBundle ''b'')"
  by (simp_all add: readErrorBundle_def readFile_def exampleWorld_def exampleFiles_def
        exampleBundle_def truthy_def)

lemmas example_defs =
  exampleWorld_def exampleBundle_def exampleOptions_def exampleTwoBundles_def exampleStale_def
  exampleHuge_def exampleThrowingOptions_def newDaemon_def defaultProcessor_def

lemmas run_defs =
  processBatch_def processFile_def processBundle_def processBundleMove_def processBundleCatch_def
  moveBundleToProcessed_def persistState_def stop_def stopCalled_def
  listPendingBundles_def readErrorBundle_def readdir_def readFile_def writeFile_def unlink_def
  rename_def catchIgnore_def truthy_def template_def buildBundleFilename_def pathJoin_def
  resolvePendingBundlesDir_def resolveProcessedBundlesDir_def startsWith_def endsWith_def
  MAX_BATCH_SIZE_def Let_def number_defs

section \<open>The claims\<close>




text \<open>
  C2. A bundle with \<open>retryCount = maxRetries\<close> whose processor returns a resolution is
  moved to the processed directory by the step that handles its file, whatever the
  resolution's retry flag: the pending entry is gone and the processed entry holds the
  bundle, stamped. When the \<^verbatim>\<open>onBundleProcessed\<close> handler returns, the stored
  resolution is the processor's, the processed counter goes up by 1, and the failed
  counter goes up by 1 for an unresolved resolution (the resolved counter for a
  resolved one).
\<close>

theorem exhausted_bundle_is_moved:
  assumes "readErrorBundle w t = Some bundle" "\<not> processed bundle" "t = ownPath w bundle"
    and "processor d bundle = Returns res"
    and "retryCount bundle = maxRetries bundle"
  shows "\<exists>d' w' r. final (processFile t (d, w)) = (d', w')
       \<and> readFile (files w') t = None
       \<and> readFile (files w') (resolveProcessedBundlesDir w, snd t) =
           Some (Json (bundle\<lparr>resolution := Some r, processed := True, processedAt := Some (now w)\<rparr>))
       \<and> (bundleHandlerReturns d (bundle\<lparr>resolution := Some res\<rparr>) res \<longrightarrow>
            r = res
          \<and> processFile t (d, w) = Done (d', w')
          \<and> bundlesProcessed (state d') = bundlesProcessed (state d) + 1
          \<and> (if resolved res
              then bundlesResolved (state d') = bundlesResolved (state d) + 1
                 \<and> bundlesFailed (state d') = bundlesFailed (state d)
              else bundlesFailed (state d') = bundlesFailed (state d) + 1
                 \<and> bundlesResolved (state d') = bundlesResolved (state d)))"
proof -
  define b1 where "b1 = bundle\<lparr>resolution := Some res\<rparr>"
  define d1 where "d1 = d\<lparr>state := (state d)\<lparr>bundlesProcessed := bundlesProcessed (state d) + 1\<rparr>\<rparr>"
  define d2 where "d2 = (if resolved res
      then d1\<lparr>state := (state d1)\<lparr>bundlesResolved := bundlesResolved (state d1) + 1\<rparr>\<rparr>
      else d1\<lparr>state := (state d1)\<lparr>bundlesFailed := bundlesFailed (state d1) + 1\<rparr>\<rparr>)"
  have pf: "processFile t (d, w) = processBundleMove b1 res (d2, w)"
    using assms(1,2,4,5) by (simp add: processFile_def processBundle_def Let_def b1_def d1_def d2_def)
  have snd_t: "snd t = buildBundleFilename (template (bundleId bundle))"
    and t: "t = (resolvePendingBundlesDir w, buildBundleFilename (template (bundleId bundle)))"
    using assms(3) by (simp_all add: ownPath_def)
  have ne: "resolveProcessedBundlesDir w \<noteq> resolvePendingBundlesDir w"
    using dirs_differ(1) [of w] by simp
  define w1 where "w1 = moveBundleToProcessed b1 w"
  have w1: "readFile (files w1) t = None"
    "readFile (files w1) (resolveProcessedBundlesDir w, snd t) =
       Some (Json (bundle\<lparr>resolution := Some res, processed := True, processedAt := Some (now w)\<rparr>))"
    "now w1 = now w" "errorBundlesDir w1 = errorBundlesDir w"
    using ne by (simp_all add: w1_def b1_def readFile_moveBundleToProcessed t moveBundleToProcessed_world)
  show ?thesis
  proof (cases "case onBundleProcessed (options d) of None \<Rightarrow> Returns () | Some h \<Rightarrow> h b1 res")
    case (Returns u)
    then have "processFile t (d, w) = Done (d2, w1)"
      by (simp add: pf processBundleMove_def Let_def w1_def d2_def d1_def)
    then show ?thesis
      using w1 by (intro exI [of _ d2] exI [of _ w1] exI [of _ res]) (simp add: d2_def d1_def)
  next
    case (Throws e')
    then have nh: "\<not> bundleHandlerReturns d b1 res"
      by (auto simp: bundleHandlerReturns_def split: option.splits)
    have pc: "processFile t (d, w) = processBundleCatch b1 e' (d2, w1)"
      using Throws by (simp add: pf processBundleMove_def Let_def w1_def d2_def d1_def)
    define d3 where "d3 = d2\<lparr>state := (state d2)\<lparr>bundlesFailed := bundlesFailed (state d2) + 1\<rparr>\<rparr>"
    show ?thesis
    proof (cases "case onProcessError (options d3) of None \<Rightarrow> Returns () | Some h \<Rightarrow> h b1 e'")
      case (Throws e'')
      then have "processFile t (d, w) = Raised e'' (d3, w1)"
        by (simp add: pc processBundleCatch_def Let_def d3_def)
      then show ?thesis
        using w1 nh by (intro exI [of _ d3] exI [of _ w1] exI [of _ res]) (simp add: b1_def)
    next
      case (Returns u)
      define w2 where "w2 = moveBundleToProcessed (b1\<lparr>resolution := Some (syntheticResolution e')\<rparr>) w1"
      have "processFile t (d, w) = Done (d3, w2)"
        using Returns by (simp add: pc processBundleCatch_def Let_def d3_def w2_def syntheticResolution_def)
      moreover have "readFile (files w2) t = None"
        "readFile (files w2) (resolveProcessedBundlesDir w, snd t) =
          Some (Json (bundle\<lparr>resolution := Some (syntheticResolution e'), processed := True,
                              processedAt := Some (now w)\<rparr>))"
        using ne w1(3) dirs_of_world [OF w1(4)]
        by (simp_all add: w2_def b1_def readFile_moveBundleToProcessed t)
      ultimately show ?thesis
        using nh by (intro exI [of _ d3] exI [of _ w2] exI [of _ "syntheticResolution e'"]) (simp add: b1_def)
    qed
  qed
qed

theorem exhausted_bundle_is_moved_witness:
  "\<exists>d' w'.
     processFile (''/q/pending'', ''error-b.json'')
       ((newDaemon exampleOptions)\<lparr>processor := \<lambda>b. Returns exampleGiveUp\<rparr>,
        exampleWorld [((''/q/pending'', ''error-b.json''), Json exampleExhausted)]) = Done (d', w')
   \<and> readFile (files w') (''/q/pending'', ''error-b.json'') = None
   \<and> readFile (files w') (''/q/processed'', ''error-b.json'') =
       Some (Json (exampleExhausted\<lparr>resolution := Some exampleGiveUp, processed := True,
                                     processedAt := Some ''2026-01-02T00:00:00.000Z''\<rparr>))
   \<and> bundlesProcessed (state d') = 1
   \<and> bundlesFailed (state d') = 1
   \<and> bundlesResolved (state d') = 0"
proof -
  let ?d = "(newDaemon exampleOptions)\<lparr>processor := \<lambda>b. Returns exampleGiveUp\<rparr>"
  let ?w = "exampleWorld [((''/q/pending'', ''error-b.json''), Json exampleExhausted)]"
  let ?t = "(''/q/pending'', ''error-b.json'')"
  have rd: "readErrorBundle ?w ?t = Some exampleExhausted"
    by (simp add: readErrorBundle_def readFile_def exampleWorld_def exampleExhausted_def
          exampleBundle_def truthy_def)
  have np: "\<not> processed exampleExhausted"
    by (simp add: exampleExhausted_def exampleBundle_def)
  have own: "?t = ownPath ?w exampleExhausted"
    by (simp add: ownPath_def exampleWorld_def exampleExhausted_def exampleBundle_def
          resolvePendingBundlesDir_def pathJoin_def buildBundleFilename_def template_def)
  have pr: "processor ?d exampleExhausted = Returns exampleGiveUp"
    by simp
  have ex: "retryCount exampleExhausted = maxRetries exampleExhausted"
    by (simp add: exampleExhausted_def exampleBundle_def)
  have hr: "bundleHandlerReturns ?d (exampleExhausted\<lparr>resolution := Some exampleGiveUp\<rparr>) exampleGiveUp"
    by (simp add: bundleHandlerReturns_def newDaemon_def exampleOptions_def)
  have dir: "resolveProcessedBundlesDir ?w = ''/q/processed''" "now ?w = ''2026-01-02T00:00:00.000Z''"
    by (simp_all add: exampleWorld_def resolveProcessedBundlesDir_def pathJoin_def)
  have st: "bundlesProcessed (state ?d) = 0" "bundlesFailed (state ?d) = 0"
    "bundlesResolved (state ?d) = 0" "\<not> resolved exampleGiveUp"
    by (simp_all add: newDaemon_def exampleGiveUp_def)
  obtain d' w' r where r: "readFile (files w') ?t = None"
    "readFile (files w') (resolveProcessedBundlesDir ?w, snd ?t) =
       Some (Json (exampleExhausted\<lparr>resolution := Some r, processed := True,
                                     processedAt := Some (now ?w)\<rparr>))"
    "bundleHandlerReturns ?d (exampleExhausted\<lparr>resolution := Some exampleGiveUp\<rparr>) exampleGiveUp \<longrightarrow>
       r = exampleGiveUp
     \<and> processFile ?t (?d, ?w) = Done (d', w')
     \<and> bundlesProcessed (state d') = bundlesProcessed (state ?d) + 1
     \<and> (if resolved exampleGiveUp
         then bundlesResolved (state d') = bundlesResolved (state ?d) + 1
            \<and> bundlesFailed (state d') = bundlesFailed (state ?d)
         else bundlesFailed (state d') = bundlesFailed (state ?d) + 1
            \<and> bundlesResolved (state d') = bundlesResolved (state ?d))"
    using exhausted_bundle_is_moved [OF rd np own pr ex] by blast
  from r(3) hr st have "r = exampleGiveUp" "processFile ?t (?d, ?w) = Done (d', w')"
    "bundlesProcessed (state d') = 1" "bundlesFailed (state d') = 1" "bundlesResolved (state d') = 0"
    by simp_all
  with r(1,2) dir show ?thesis by auto
qed

text \<open>
  What the \<^verbatim>\<open>catch\<close> block of \<open>processBundle\<close> does when the \<^verbatim>\<open>onProcessError\<close>
  handler returns or is missing: the step ends normally, the failed counter goes up by
  1, and the bundle is moved to the processed directory with the synthetic resolution.
\<close>

lemma processBundle_contains_processor_error:
  assumes "errorHandlerReturns d"
    and "readErrorBundle w t = Some bundle" "\<not> processed bundle" "t = ownPath w bundle"
    and "processor d bundle = Throws e"
  shows "\<exists>w'. processBundle bundle (d, w) =
           Done (d\<lparr>state := (state d)\<lparr>bundlesFailed := bundlesFailed (state d) + 1\<rparr>\<rparr>, w')
       \<and> readFile (files w') (resolveProcessedBundlesDir w, snd t) =
           Some (Json (bundle\<lparr>resolution := Some (syntheticResolution e),
                               processed := True, processedAt := Some (now w)\<rparr>))
       \<and> readFile (files w') t = None"
proof -
  define d' where "d' = d\<lparr>state := (state d)\<lparr>bundlesFailed := bundlesFailed (state d) + 1\<rparr>\<rparr>"
  define w' where "w' = moveBundleToProcessed (bundle\<lparr>resolution := Some (syntheticResolution e)\<rparr>) w"
  have pf: "processFile t (d, w) = Done (d', w')"
    unfolding d'_def w'_def by (rule processFile_throw [OF assms(2,3,5,1)])
  then have pb: "processBundle bundle (d, w) = Done (d', w')"
    using assms(2,3) by (simp add: processFile_def Let_def)
  have t: "t = (resolvePendingBundlesDir w, buildBundleFilename (template (bundleId bundle)))"
    using assms(4) by (simp add: ownPath_def)
  have ne: "resolveProcessedBundlesDir w \<noteq> resolvePendingBundlesDir w"
    using dirs_differ(1) [of w] by simp
  have "readFile (files w') (resolveProcessedBundlesDir w, snd t) =
           Some (Json (bundle\<lparr>resolution := Some (syntheticResolution e),
                               processed := True, processedAt := Some (now w)\<rparr>))"
    "readFile (files w') t = None"
    using ne by (simp_all add: w'_def readFile_moveBundleToProcessed t)
  then show ?thesis using pb unfolding d'_def by blast
qed

text \<open>
  C3. When the processor throws on a bundle, the error is to be caught inside the step
  that processes the bundle, the bundle is to get a synthetic resolution with
  \<open>resolved = False\<close> and \<open>retryTriggered = False\<close> that describes the failure and to be
  moved to the processed directory, and the run is to go on with the next bundle. The
  code does so when the \<^verbatim>\<open>onProcessError\<close> handler returns. It calls the handler
  inside the \<^verbatim>\<open>catch\<close> block, before the resolution is built, and nothing catches
  an error of the handler there: with a processor that throws and a handler that
  throws, on a started daemon with two bundles, \<open>processBundle\<close> ends with the handler's
  error, the first bundle stays in the pending directory as it was with no resolution,
  nothing reaches the processed directory, the second bundle is not handled, and the
  run ends with the status \<^verbatim>\<open>error\<close>.
\<close>

theorem throwing_error_handler_aborts_run:
  "processor (newDaemon exampleThrowingOptions) (exampleBundle ''a'') = Throws ''timeout''
 \<and> processBundle (exampleBundle ''a'')
       (start (newDaemon exampleThrowingOptions, exampleWorld exampleTwoBundles)) =
     Raised ''handler failed''
       (final (processBundle (exampleBundle ''a'')
          (start (newDaemon exampleThrowingOptions, exampleWorld exampleTwoBundles))))
 \<and> status (state (fst (processBatch []
       (start (newDaemon exampleThrowingOptions, exampleWorld exampleTwoBundles))))) = StatusError
 \<and> readFile (files (snd (processBatch []
       (start (newDaemon exampleThrowingOptions, exampleWorld exampleTwoBundles)))))
     (''/q/pending'', ''error-a.json'') = Some (Json (exampleBundle ''a''))
 \<and> readFile (files (snd (processBatch []
       (start (newDaemon exampleThrowingOptions, exampleWorld exampleTwoBundles)))))
     (''/q/processed'', ''error-a.json'') = None
 \<and> readFile (files (snd (processBatch []
       (start (newDaemon exampleThrowingOptions, exampleWorld exampleTwoBundles)))))
     (''/q/pending'', ''error-b.json'') = Some (Json (exampleBundle ''b''))
 \<and> readFile (files (snd (processBatch []
       (start (newDaemon exampleThrowingOptions, exampleWorld exampleTwoBundles)))))
     (''/q/processed'', ''error-b.json'') = None
 \<and> bundlesProcessed (state (fst (processBatch []
       (start (newDaemon exampleThrowingOptions, exampleWorld exampleTwoBundles))))) = 0
 \<and> bundlesFailed (state (fst (processBatch []
       (start (newDaemon exampleThrowingOptions, exampleWorld exampleTwoBundles))))) = 1"
  by (simp add: run_defs example_defs start_def scheduleBatch_def)

text \<open>
  C4. A file of the batch whose content \<open>readErrorBundle\<close> rejects (not JSON, no
  identifier, a version other than 1) is read as absent, and after the batch run it is
  no entry of the pending directory any more: it lies in the \<^verbatim>\<open>invalid\<close>
  directory under the processed directory, with the content it had, and the next
  listing of pending bundles does not contain it. The run is one that reaches the file.
\<close>

theorem invalid_file_is_quarantined:
  assumes "\<not> processing d" "\<not> stopped d"
    and "take MAX_BATCH_SIZE (listPendingBundles w) = pre @ t # post"
    and "True \<notin> set (take (length pre) stopCalls)"
    and "errorHandlerReturns d"
    and "list_all (storedUnderOwnName w) (pre @ t # post)"
    and "readFile (files w) t = Some c" "invalidContent c"
  shows "readErrorBundle w t = None
       \<and> readFile (files (snd (processBatch stopCalls (d, w)))) t = None
       \<and> readFile (files (snd (processBatch stopCalls (d, w))))
            (pathJoin (resolveProcessedBundlesDir w) ''invalid'', snd t) = Some c
       \<and> t \<notin> set (listPendingBundles (snd (processBatch stopCalls (d, w))))"
proof -
  have names: "\<forall>p\<in>set (pre @ t # post). storedUnderOwnName w p"
    using assms(6) by (simp add: list_all_iff)
  obtain d1 w1 dw2 where r: "processFile t (d1, w1) = Done dw2"
     "\<forall>q. snd q = snd t \<longrightarrow> readFile (files w1) q = readFile (files w) q"
     "\<forall>q. snd q = snd t \<longrightarrow>
             readFile (files (snd (processBatch stopCalls (d, w)))) q = readFile (files (snd dw2)) q"
     "options d1 = options d" "processor d1 = processor d"
     "errorBundlesDir w1 = errorBundlesDir w" "now w1 = now w"
    using processBatch_reaches [OF assms(1-5) names] by blast
  have "readFile (files w1) t = readFile (files w) t" using r(2) by blast
  then have rd: "readFile (files w1) t = Some c" using assms(7) by simp
  have dir: "fst t = resolvePendingBundlesDir w" by (rule batch_facts(2) [OF assms(3)])
  have ne: "(pathJoin (resolveProcessedBundlesDir w) ''invalid'', snd t) \<noteq> t"
    using dir dirs_differ(2) [of w] by (auto simp: prod_eq_iff)
  have dw2: "dw2 = (d1, w1\<lparr>files := catchIgnore
             (rename t (pathJoin (resolveProcessedBundlesDir w1) ''invalid'', snd t) (files w1)) (files w1)\<rparr>)"
    using processFile_invalid [OF rd assms(8), of d1] r(1) by simp
  have a: "readFile (files (snd dw2)) t = None"
    using ne rd dirs_of_world(2) [OF r(6)] by (simp add: dw2 readFile_rename)
  have b: "readFile (files (snd dw2)) (pathJoin (resolveProcessedBundlesDir w) ''invalid'', snd t) = Some c"
    using rd dirs_of_world(2) [OF r(6)] by (simp add: dw2 readFile_rename)
  have "readFile (files (snd (processBatch stopCalls (d, w)))) t = readFile (files (snd dw2)) t"
    using r(3) by blast
  then have gone: "readFile (files (snd (processBatch stopCalls (d, w)))) t = None"
    using a by simp
  have "readFile (files (snd (processBatch stopCalls (d, w))))
            (pathJoin (resolveProcessedBundlesDir w) ''invalid'', snd t)
      = readFile (files (snd dw2)) (pathJoin (resolveProcessedBundlesDir w) ''invalid'', snd t)"
    using r(3) by simp
  then have there: "readFile (files (snd (processBatch stopCalls (d, w))))
            (pathJoin (resolveProcessedBundlesDir w) ''invalid'', snd t) = Some c"
    using b by simp
  have "t \<notin> set (listPendingBundles (snd (processBatch stopCalls (d, w))))"
    using listPendingBundles_exists [of t "snd (processBatch stopCalls (d, w))"] gone by blast
  moreover have "readErrorBundle w t = None"
    using assms(7,8) by (simp add: readErrorBundle_None_iff)
  ultimately show ?thesis using gone there by simp
qed

theorem invalid_file_is_quarantined_witness:
  "readErrorBundle (exampleWorld exampleFiles) (''/q/pending'', ''error-a.json'') = None
 \<and> readFile (files (snd (processBatch [] (newDaemon exampleOptions, exampleWorld exampleFiles))))
     (''/q/pending'', ''error-a.json'') = None
 \<and> readFile (files (snd (processBatch [] (newDaemon exampleOptions, exampleWorld exampleFiles))))
     (''/q/processed/invalid'', ''error-a.json'') = Some (NotJson ''{'')
 \<and> (''/q/pending'', ''error-a.json'') \<notin>
     set (listPendingBundles (snd (processBatch [] (newDaemon exampleOptions, exampleWorld exampleFiles))))"
proof -
  let ?d = "newDaemon exampleOptions" and ?w = "exampleWorld exampleFiles"
  have run: "\<not> processing ?d" "\<not> stopped ?d"
    by (simp_all add: newDaemon_def)
  have batch: "take MAX_BATCH_SIZE (listPendingBundles ?w) =
      [] @ (''/q/pending'', ''error-a.json'') # [(''/q/pending'', ''error-b.json'')]"
    by (simp add: example_listing MAX_BATCH_SIZE_def)
  have nostop: "True \<notin> set (take (length ([]::path list)) ([]::bool list))"
    by simp
  have handler: "errorHandlerReturns ?d"
    by (simp add: errorHandlerReturns_def newDaemon_def exampleOptions_def)
  have names: "list_all (storedUnderOwnName ?w)
      ([] @ (''/q/pending'', ''error-a.json'') # [(''/q/pending'', ''error-b.json'')])"
    by (simp add: storedUnderOwnName_def example_reads buildBundleFilename_def template_def
          exampleBundle_def)
  have content: "readFile (files ?w) (''/q/pending'', ''error-a.json'') = Some (NotJson ''{'')"
    "invalidContent (NotJson ''{'')"
    by (simp_all add: readFile_def exampleWorld_def exampleFiles_def invalidContent_def)
  have dir: "pathJoin (resolveProcessedBundlesDir ?w) ''invalid'' = ''/q/processed/invalid''"
    by (simp add: exampleWorld_def resolveProcessedBundlesDir_def pathJoin_def)
  show ?thesis
    using invalid_file_is_quarantined [OF run batch nostop handler names content]
    by (simp add: dir)
qed

text \<open>
  C5, as amended. The loop of a batch run tests the stop flag before every file. Once
  the flag is set the loop ends and the remaining files of the batch stay as they are;
  a \<open>stop\<close> called while a file is being handled lets that file finish and skips the
  rest. After \<open>stop\<close> the watcher and both timers are gone, a trigger schedules nothing
  and a batch run does nothing.
\<close>

theorem stop_skips_rest_of_batch:
  "(stopped d \<longrightarrow> processLoop ps stopCalls (d, w) = Done (d, w))
 \<and> (\<not> stopped d \<and> stopCalled stopCalls \<longrightarrow>
      processLoop (p # rest) stopCalls (d, w) = processFile p (stop (d, w)))
 \<and> scheduleBatch (fst (stop (d, w))) = fst (stop (d, w))
 \<and> processBatch stopCalls (stop (d, w)) = stop (d, w)
 \<and> \<not> watcher (fst (stop (d, w))) \<and> pollTimer (fst (stop (d, w))) = None
 \<and> \<not> debounceTimer (fst (stop (d, w)))"
proof (intro conjI impI)
  assume "stopped d"
  then show "processLoop ps stopCalls (d, w) = Done (d, w)"
    by (simp add: processLoop_stopped)
next
  assume a: "\<not> stopped d \<and> stopCalled stopCalls"
  have st: "stopped (fst (final (processFile p (stop (d, w)))))"
    using processFile_fields(1) [of p "fst (stop (d, w))" "snd (stop (d, w))"] stop_fields(1) [of "(d, w)"]
    by simp
  show "processLoop (p # rest) stopCalls (d, w) = processFile p (stop (d, w))"
  proof (cases "processFile p (stop (d, w))")
    case (Done dw')
    then have "stopped (fst dw')" using st by simp
    then show ?thesis using a Done by (simp add: processLoop_stopped)
  next
    case (Raised e dw')
    then show ?thesis using a by simp
  qed
next
  show "scheduleBatch (fst (stop (d, w))) = fst (stop (d, w))"
    by (simp add: scheduleBatch_def stop_fields)
  show "processBatch stopCalls (stop (d, w)) = stop (d, w)"
    using stop_fields(1) [of "(d, w)"] by (simp add: processBatch_def Let_def)
  show "\<not> watcher (fst (stop (d, w)))" "pollTimer (fst (stop (d, w))) = None"
    "\<not> debounceTimer (fst (stop (d, w)))"
    by (simp_all add: stop_def Let_def)
qed

theorem stop_skips_rest_of_batch_witness:
  "processLoop [(''/q/pending'', ''error-a.json''), (''/q/pending'', ''error-b.json'')] []
     (stop (newDaemon exampleOptions, exampleWorld exampleTwoBundles)) =
     Done (stop (newDaemon exampleOptions, exampleWorld exampleTwoBundles))
 \<and> processLoop [(''/q/pending'', ''error-a.json''), (''/q/pending'', ''error-b.json'')] [True]
     (newDaemon exampleOptions, exampleWorld exampleTwoBundles) =
     processFile (''/q/pending'', ''error-a.json'')
       (stop (newDaemon exampleOptions, exampleWorld exampleTwoBundles))"
proof -
  let ?d = "newDaemon exampleOptions" and ?w = "exampleWorld exampleTwoBundles"
  let ?ps = "[(''/q/pending'', ''error-a.json''), (''/q/pending'', ''error-b.json'')]"
  have a: "stopped (fst (stop (?d, ?w)))" by (rule stop_fields(1))
  have b: "\<not> stopped ?d \<and> stopCalled [True]"
    by (simp add: newDaemon_def stopCalled_def)
  have "processLoop ?ps [] (fst (stop (?d, ?w)), snd (stop (?d, ?w))) =
      Done (fst (stop (?d, ?w)), snd (stop (?d, ?w)))"
    using stop_skips_rest_of_batch [of "fst (stop (?d, ?w))" ?ps "[]" "snd (stop (?d, ?w))"] a
    by blast
  moreover have "processLoop ((''/q/pending'', ''error-a.json'') # [(''/q/pending'', ''error-b.json'')])
      [True] (?d, ?w) = processFile (''/q/pending'', ''error-a.json'') (stop (?d, ?w))"
    using stop_skips_rest_of_batch [of ?d _ "[True]" ?w] b by blast
  ultimately show ?thesis by simp
qed

text \<open>
  C5 as stated fails: a started daemon with two bundles in the batch, and \<open>stop\<close> called
  while the first is handled. The run ends with the second bundle's file untouched in
  the pending directory and one bundle processed; the same run without the call
  processes both.
\<close>

theorem stop_interrupts_batch_counterexample:
  "take MAX_BATCH_SIZE (listPendingBundles (exampleWorld exampleTwoBundles)) =
     [(''/q/pending'', ''error-a.json''), (''/q/pending'', ''error-b.json'')]
 \<and> readErrorBundle (exampleWorld exampleTwoBundles) (''/q/pending'', ''error-b.json'') =
     Some (exampleBundle ''b'')
 \<and> status (state (fst (start (newDaemon exampleOptions, exampleWorld exampleTwoBundles)))) = Running
 \<and> readFile (files (snd (processBatch [True]
       (start (newDaemon exampleOptions, exampleWorld exampleTwoBundles)))))
     (''/q/pending'', ''error-b.json'') = Some (Json (exampleBundle ''b''))
 \<and> readFile (files (snd (processBatch [True]
       (start (newDaemon exampleOptions, exampleWorld exampleTwoBundles)))))
     (''/q/processed'', ''error-b.json'') = None
 \<and> bundlesProcessed (state (fst (processBatch [True]
       (start (newDaemon exampleOptions, exampleWorld exampleTwoBundles))))) = 1
 \<and> readFile (files (snd (processBatch []
       (start (newDaemon exampleOptions, exampleWorld exampleTwoBundles)))))
     (''/q/pending'', ''error-b.json'') =
     Some (Json ((exampleBundle ''b'')
       \<lparr>resolution := Some \<lparr>resolved = False, action = ''relayed to Claude Code for analysis'',
                             modifiedFiles = None, retryTriggered = True\<rparr>,
        retryCount := 1\<rparr>))
 \<and> bundlesProcessed (state (fst (processBatch []
       (start (newDaemon exampleOptions, exampleWorld exampleTwoBundles))))) = 2"
  by (simp add: run_defs example_defs start_def scheduleBatch_def)

text \<open>
  C6, as amended. A bundle found in the pending directory with \<open>processed = True\<close> is
  moved to the processed directory without a call of the processor: the pending entry
  is removed and the processed entry holds the bundle with \<open>processedAt\<close> set to the
  current time and every other field, the resolution among them, as it was. The daemon
  object does not change.
\<close>

theorem stale_bundle_is_restamped:
  assumes "readErrorBundle w t = Some bundle" "processed bundle" "t = ownPath w bundle"
  shows "\<exists>w'. processFile t (d, w) = Done (d, w')
       \<and> readFile (files w') t = None
       \<and> readFile (files w') (resolveProcessedBundlesDir w, snd t) =
           Some (Json (bundle\<lparr>processedAt := Some (now w)\<rparr>))"
proof -
  have t: "t = (resolvePendingBundlesDir w, buildBundleFilename (template (bundleId bundle)))"
    using assms(3) by (simp add: ownPath_def)
  have ne: "resolveProcessedBundlesDir w \<noteq> resolvePendingBundlesDir w"
    using dirs_differ(1) [of w] by simp
  have same: "bundle\<lparr>processed := True, processedAt := Some (now w)\<rparr> = bundle\<lparr>processedAt := Some (now w)\<rparr>"
    using assms(2) by simp
  have "processFile t (d, w) = Done (d, moveBundleToProcessed bundle w)"
    using assms(1,2) by (simp add: processFile_def Let_def)
  moreover have "readFile (files (moveBundleToProcessed bundle w)) t = None"
    using ne by (simp add: readFile_moveBundleToProcessed t)
  moreover have "readFile (files (moveBundleToProcessed bundle w)) (resolveProcessedBundlesDir w, snd t) =
           Some (Json (bundle\<lparr>processedAt := Some (now w)\<rparr>))"
    using ne same by (simp add: readFile_moveBundleToProcessed t)
  ultimately show ?thesis by blast
qed

theorem stale_bundle_is_restamped_witness:
  "\<exists>w'.
     processFile (''/q/pending'', ''error-s.json'')
       (newDaemon exampleOptions,
        exampleWorld [((''/q/pending'', ''error-s.json''), Json exampleStale)]) =
       Done (newDaemon exampleOptions, w')
   \<and> readFile (files w') (''/q/pending'', ''error-s.json'') = None
   \<and> readFile (files w') (''/q/processed'', ''error-s.json'') =
       Some (Json (exampleStale\<lparr>processedAt := Some ''2026-01-02T00:00:00.000Z''\<rparr>))"
proof -
  let ?w = "exampleWorld [((''/q/pending'', ''error-s.json''), Json exampleStale)]"
  let ?t = "(''/q/pending'', ''error-s.json'')"
  have rd: "readErrorBundle ?w ?t = Some exampleStale"
    by (simp add: readErrorBundle_def readFile_def exampleWorld_def exampleStale_def
          exampleBundle_def truthy_def)
  have pr: "processed exampleStale"
    by (simp add: exampleStale_def)
  have own: "?t = ownPath ?w exampleStale"
    by (simp add: ownPath_def exampleWorld_def exampleStale_def exampleBundle_def
          resolvePendingBundlesDir_def pathJoin_def buildBundleFilename_def template_def)
  have dir: "resolveProcessedBundlesDir ?w = ''/q/processed''" "now ?w = ''2026-01-02T00:00:00.000Z''"
    by (simp_all add: exampleWorld_def resolveProcessedBundlesDir_def pathJoin_def)
  show ?thesis
    using stale_bundle_is_restamped [OF rd pr own, of "newDaemon exampleOptions"]
    by (simp add: dir)
qed

text \<open>
  C6 as stated fails: a stale bundle stamped at noon of January 1st and caught up on
  January 2nd is stored in the processed directory with the later time, so
  \<open>processedAt\<close> is not preserved.
\<close>

theorem stale_bundle_fields_counterexample:
  "processed exampleStale
 \<and> processedAt exampleStale = Some ''2026-01-01T12:00:00.000Z''
 \<and> readErrorBundle (exampleWorld [((''/q/pending'', ''error-s.json''), Json exampleStale)])
       (''/q/pending'', ''error-s.json'') = Some exampleStale
 \<and> readFile (files (snd (processBatch [] (newDaemon exampleOptions,
       exampleWorld [((''/q/pending'', ''error-s.json''), Json exampleStale)]))))
     (''/q/processed'', ''error-s.json'') =
     Some (Json (exampleStale\<lparr>processedAt := Some ''2026-01-02T00:00:00.000Z''\<rparr>))
 \<and> readFile (files (snd (processBatch [] (newDaemon exampleOptions,
       exampleWorld [((''/q/pending'', ''error-s.json''), Json exampleStale)]))))
     (''/q/processed'', ''error-s.json'') \<noteq> Some (Json exampleStale)"
  by (simp add: run_defs example_defs)

text \<open>
  C7. With no daemon object in the process and a state file that holds the status
  \<^verbatim>\<open>running\<close> and a pid: for a live pid the status query returns the stored state as
  it is; for a pid of no live process it returns the stored state with the status
  \<^verbatim>\<open>stopped\<close> and every other field as stored. The world, the state file in it, is
  the same after the query. The number 0 does not count as a recorded pid.
\<close>

theorem status_query_detects_crash:
  assumes "stateFile w = Some (Json persisted)" "status persisted = Running"
    and "pid persisted = Some p"
  shows "(processKill0 w p \<longrightarrow> getErrorFeedbackDaemonStatus None w = (persisted, w))
       \<and> (\<not> processKill0 w p \<and> p \<noteq> 0 \<longrightarrow>
            getErrorFeedbackDaemonStatus None w = (persisted\<lparr>status := Stopped\<rparr>, w))"
  using assms by (simp add: getErrorFeedbackDaemonStatus_def readDaemonState_def)

theorem status_query_detects_crash_witness:
  "getErrorFeedbackDaemonStatus None ((exampleWorld [])\<lparr>stateFile := Some (Json examplePersisted)\<rparr>) =
     (examplePersisted\<lparr>status := Stopped\<rparr>,
      (exampleWorld [])\<lparr>stateFile := Some (Json examplePersisted)\<rparr>)
 \<and> getErrorFeedbackDaemonStatus None
       ((exampleWorld [])\<lparr>stateFile := Some (Json (examplePersisted\<lparr>pid := Some 4242\<rparr>))\<rparr>) =
     (examplePersisted\<lparr>pid := Some 4242\<rparr>,
      (exampleWorld [])\<lparr>stateFile := Some (Json (examplePersisted\<lparr>pid := Some 4242\<rparr>))\<rparr>)"
proof -
  let ?w = "(exampleWorld [])\<lparr>stateFile := Some (Json examplePersisted)\<rparr>"
  let ?w' = "(exampleWorld [])\<lparr>stateFile := Some (Json (examplePersisted\<lparr>pid := Some 4242\<rparr>))\<rparr>"
  have dead: "stateFile ?w = Some (Json examplePersisted)" "status examplePersisted = Running"
    "pid examplePersisted = Some 999" "\<not> processKill0 ?w 999 \<and> (999::int) \<noteq> 0"
    by (simp_all add: examplePersisted_def processKill0_def exampleWorld_def)
  have live: "stateFile ?w' = Some (Json (examplePersisted\<lparr>pid := Some 4242\<rparr>))"
    "status (examplePersisted\<lparr>pid := Some 4242\<rparr>) = Running"
    "pid (examplePersisted\<lparr>pid := Some 4242\<rparr>) = Some 4242" "processKill0 ?w' 4242"
    by (simp_all add: examplePersisted_def processKill0_def exampleWorld_def)
  show ?thesis
    using status_query_detects_crash [OF dead(1,2,3)] dead(4)
      status_query_detects_crash [OF live(1,2,3)] live(4)
    by blast
qed

text \<open>
  C8. Round trip: \<open>writeErrorBundle\<close> with a non-empty identifier returns a bundle, and
  \<open>readErrorBundle\<close> on the file it wrote returns that bundle, equal in every field.
\<close>

theorem write_then_read_roundtrip:
  assumes "uuid \<noteq> []"
  shows "fst (writeErrorBundle params uuid tmpUuid w) \<noteq> None
       \<and> readErrorBundle (snd (writeErrorBundle params uuid tmpUuid w))
            (resolvePendingBundlesDir w, buildBundleFilename uuid)
           = fst (writeErrorBundle params uuid tmpUuid w)
       \<and> map_option bundleId (fst (writeErrorBundle params uuid tmpUuid w)) = Some (Some uuid)
       \<and> map_option version (fst (writeErrorBundle params uuid tmpUuid w)) = Some (Some 1)"
  using assms
  by (simp add: writeErrorBundle_def Let_def rename_def writeFile_def readErrorBundle_def
        readFile_def update_conv' delete_conv' truthy_def)

theorem write_then_read_roundtrip_witness:
  "fst (writeErrorBundle exampleParams ''u1'' ''t1'' (exampleWorld [])) \<noteq> None
 \<and> readErrorBundle (snd (writeErrorBundle exampleParams ''u1'' ''t1'' (exampleWorld [])))
      (''/q/pending'', ''error-u1.json'')
     = fst (writeErrorBundle exampleParams ''u1'' ''t1'' (exampleWorld []))"
proof -
  have ne: "''u1'' \<noteq> []" by simp
  have dir: "resolvePendingBundlesDir (exampleWorld []) = ''/q/pending''"
    "buildBundleFilename ''u1'' = ''error-u1.json''"
    by (simp_all add: exampleWorld_def resolvePendingBundlesDir_def pathJoin_def buildBundleFilename_def)
  show ?thesis
    using write_then_read_roundtrip [OF ne, of exampleParams "''t1''" "exampleWorld []"]
    by (simp add: dir)
qed

text \<open>
  C9. Counters of one call of \<open>processBundle\<close>. When the processor returns, the
  processed counter goes up by exactly 1 in every case; in the retry case, where the
  bundle stays pending, neither the resolved nor the failed counter moves. When the
  processor throws, the processed and the resolved counter stay and the failed counter
  goes up by 1. In both of these cases a daemon whose processed counter was the sum of
  the other two ends with a processed counter that is not.
\<close>

theorem processBundle_counters:
  "(processor d bundle = Returns res \<longrightarrow>
      bundlesProcessed (state (fst (final (processBundle bundle (d, w))))) = bundlesProcessed (state d) + 1)
 \<and> (processor d bundle = Returns res \<and> \<not> resolved res \<and> retryTriggered res
       \<and> retryCount bundle < maxRetries bundle \<longrightarrow>
      bundlesResolved (state (fst (final (processBundle bundle (d, w))))) = bundlesResolved (state d)
    \<and> bundlesFailed (state (fst (final (processBundle bundle (d, w))))) = bundlesFailed (state d)
    \<and> (bundlesProcessed (state d) = bundlesResolved (state d) + bundlesFailed (state d) \<longrightarrow>
         bundlesProcessed (state (fst (final (processBundle bundle (d, w)))))
           \<noteq> bundlesResolved (state (fst (final (processBundle bundle (d, w)))))
             + bundlesFailed (state (fst (final (processBundle bundle (d, w)))))))
 \<and> (processor d bundle = Throws e \<longrightarrow>
      bundlesProcessed (state (fst (final (processBundle bundle (d, w))))) = bundlesProcessed (state d)
    \<and> bundlesResolved (state (fst (final (processBundle bundle (d, w))))) = bundlesResolved (state d)
    \<and> bundlesFailed (state (fst (final (processBundle bundle (d, w))))) = bundlesFailed (state d) + 1
    \<and> (bundlesProcessed (state d) = bundlesResolved (state d) + bundlesFailed (state d) \<longrightarrow>
         bundlesProcessed (state (fst (final (processBundle bundle (d, w)))))
           \<noteq> bundlesResolved (state (fst (final (processBundle bundle (d, w)))))
             + bundlesFailed (state (fst (final (processBundle bundle (d, w)))))))"
proof (intro conjI impI)
  assume "processor d bundle = Returns res"
  then show "bundlesProcessed (state (fst (final (processBundle bundle (d, w))))) = bundlesProcessed (state d) + 1"
    by (simp add: processBundle_def Let_def processBundleMove_processed)
next
  assume a: "processor d bundle = Returns res \<and> \<not> resolved res \<and> retryTriggered res
       \<and> retryCount bundle < maxRetries bundle"
  then show "bundlesResolved (state (fst (final (processBundle bundle (d, w))))) = bundlesResolved (state d)"
    and "bundlesFailed (state (fst (final (processBundle bundle (d, w))))) = bundlesFailed (state d)"
    by (simp_all add: processBundle_def Let_def)
  assume "bundlesProcessed (state d) = bundlesResolved (state d) + bundlesFailed (state d)"
  with a show "bundlesProcessed (state (fst (final (processBundle bundle (d, w)))))
           \<noteq> bundlesResolved (state (fst (final (processBundle bundle (d, w)))))
             + bundlesFailed (state (fst (final (processBundle bundle (d, w)))))"
    by (simp add: processBundle_def Let_def)
next
  assume a: "processor d bundle = Throws e"
  then have eq: "processBundle bundle (d, w) = processBundleCatch bundle e (d, w)"
    by (simp add: processBundle_def Let_def)
  show "bundlesProcessed (state (fst (final (processBundle bundle (d, w))))) = bundlesProcessed (state d)"
    and "bundlesResolved (state (fst (final (processBundle bundle (d, w))))) = bundlesResolved (state d)"
    and "bundlesFailed (state (fst (final (processBundle bundle (d, w))))) = bundlesFailed (state d) + 1"
    by (simp_all add: eq processBundleCatch_counters)
  assume "bundlesProcessed (state d) = bundlesResolved (state d) + bundlesFailed (state d)"
  then show "bundlesProcessed (state (fst (final (processBundle bundle (d, w)))))
           \<noteq> bundlesResolved (state (fst (final (processBundle bundle (d, w)))))
             + bundlesFailed (state (fst (final (processBundle bundle (d, w)))))"
    by (simp add: eq processBundleCatch_counters)
qed

theorem processBundle_counters_witness:
  "bundlesProcessed (state (fst (final (processBundle (exampleBundle ''b'')
     (newDaemon exampleOptions, exampleWorld exampleFiles))))) = 1
 \<and> bundlesResolved (state (fst (final (processBundle (exampleBundle ''b'')
     (newDaemon exampleOptions, exampleWorld exampleFiles))))) = 0
 \<and> bundlesFailed (state (fst (final (processBundle (exampleBundle ''b'')
     (newDaemon exampleOptions, exampleWorld exampleFiles))))) = 0
 \<and> bundlesProcessed (state (fst (final (processBundle (exampleBundle ''b'')
     ((newDaemon exampleOptions)\<lparr>processor := \<lambda>b. Throws ''timeout''\<rparr>,
      exampleWorld exampleFiles))))) = 0
 \<and> bundlesResolved (state (fst (final (processBundle (exampleBundle ''b'')
     ((newDaemon exampleOptions)\<lparr>processor := \<lambda>b. Throws ''timeout''\<rparr>,
      exampleWorld exampleFiles))))) = 0
 \<and> bundlesFailed (state (fst (final (processBundle (exampleBundle ''b'')
     ((newDaemon exampleOptions)\<lparr>processor := \<lambda>b. Throws ''timeout''\<rparr>,
      exampleWorld exampleFiles))))) = 1"
proof -
  let ?d = "newDaemon exampleOptions"
  let ?d' = "(newDaemon exampleOptions)\<lparr>processor := \<lambda>b. Throws ''timeout''\<rparr>"
  let ?res = "\<lparr>resolved = False, action = ''relayed to Claude Code for analysis'',
                 modifiedFiles = None, retryTriggered = True\<rparr>"
  have h: "processor ?d (exampleBundle ''b'') = Returns ?res \<and> \<not> resolved ?res \<and> retryTriggered ?res
      \<and> retryCount (exampleBundle ''b'') < maxRetries (exampleBundle ''b'')"
    by (simp add: newDaemon_def exampleOptions_def defaultProcessor_def exampleBundle_def)
  have h': "processor ?d' (exampleBundle ''b'') = Throws ''timeout''"
    by simp
  have z: "bundlesProcessed (state ?d) = 0" "bundlesResolved (state ?d) = 0" "bundlesFailed (state ?d) = 0"
    "bundlesProcessed (state ?d') = 0" "bundlesResolved (state ?d') = 0" "bundlesFailed (state ?d') = 0"
    by (simp_all add: newDaemon_def)
  show ?thesis
    using processBundle_counters [of ?d "exampleBundle ''b''" ?res "exampleWorld exampleFiles"]
      processBundle_counters [of ?d' "exampleBundle ''b''" _ "exampleWorld exampleFiles" "''timeout''"]
      h h' z
    by simp
qed

text \<open>
  C10. \<open>start\<close> on a daemon that is not running sets the state anew: the three counters
  are 0, the status is \<^verbatim>\<open>running\<close>, \<open>startedAt\<close> is the current time and \<open>pid\<close> the
  pid of the process; this state is what the state file holds afterwards, and the state
  file found at the start has no influence on it.
\<close>

theorem start_reinitializes_state:
  assumes "status (state d) \<noteq> Running"
  shows "state (fst (start (d, w))) =
           \<lparr>status = Running, startedAt = Some (now w), lastPollAt = None,
            bundlesProcessed = 0, bundlesResolved = 0, bundlesFailed = 0,
            pid = Some (processPid w)\<rparr>
       \<and> stateFile (snd (start (d, w))) = Some (Json (state (fst (start (d, w)))))
       \<and> (\<forall>sf. state (fst (start (d, w\<lparr>stateFile := sf\<rparr>))) = state (fst (start (d, w))))"
  using assms by (simp add: start_def Let_def scheduleBatch_def persistState_def)

theorem start_reinitializes_state_witness:
  "state (fst (start ((newDaemon exampleOptions)\<lparr>state := examplePersisted\<lparr>status := Stopped\<rparr>\<rparr>,
       (exampleWorld [])\<lparr>stateFile := Some (Json examplePersisted)\<rparr>))) =
     \<lparr>status = Running, startedAt = Some ''2026-01-02T00:00:00.000Z'', lastPollAt = None,
      bundlesProcessed = 0, bundlesResolved = 0, bundlesFailed = 0, pid = Some 4242\<rparr>"
proof -
  let ?d = "(newDaemon exampleOptions)\<lparr>state := examplePersisted\<lparr>status := Stopped\<rparr>\<rparr>"
  let ?w = "(exampleWorld [])\<lparr>stateFile := Some (Json examplePersisted)\<rparr>"
  have h: "status (state ?d) \<noteq> Running" by simp
  have e: "now ?w = ''2026-01-02T00:00:00.000Z''" "processPid ?w = 4242"
    by (simp_all add: exampleWorld_def)
  show ?thesis
    using start_reinitializes_state [OF h, of ?w] by (simp add: e)
qed

end
